theory Spec2Isabelle
  imports Main "HOL-Library.AList" "HOL-Library.Sublist"
begin

section \<open>JavaScript values\<close>

text \<open>
  The data that flows through \<^verbatim>\<open>main.js\<close> is JSON data: request-body content, parsed
  response bodies, stored values. Strings are lists of 8-bit characters (code units
  0..255). Numbers are the integer-valued JavaScript numbers that print as plain
  decimals (the safe integers); \<^verbatim>\<open>-0\<close> is \<^verbatim>\<open>0\<close>. An object is the list of its own
  properties in insertion order, with distinct keys; JavaScript moves keys that are
  array indices to the front, which the model does not, and no statement below depends on
  the position of such a key. \<^verbatim>\<open>undefined\<close>, which a property read yields for an
  absent key, is not JSON data and is kept apart in \<open>jsvalue\<close>.

  An object made by a literal or by \<^verbatim>\<open>JSON.parse\<close> inherits twelve names from
  \<^verbatim>\<open>Object.prototype\<close>; a read of one of them that finds no own property finds the
  inherited member. They are listed in \<open>object_prototype_names\<close>.
\<close>

datatype json =
    JNull
  | JBool bool
  | JNum int
  | JStr string
  | JArr "json list"
  | JObj "(string \<times> json) list"

datatype jsvalue = Undefined | Val json

text \<open>
  The exceptions the code can raise. \<open>StoredValueNotFound\<close> and
  \<open>UnsupportedBodyType\<close> are the two \<^verbatim>\<open>new Error(...)\<close> of \<^verbatim>\<open>prepareRequestBody\<close>;
  \<open>TypeError\<close> and \<open>SyntaxError\<close> are raised by the language itself (a property read
  on \<^verbatim>\<open>undefined\<close>, a call of a non-function, \<^verbatim>\<open>JSON.parse\<close>, \<^verbatim>\<open>new RegExp\<close>);
  \<open>HostError\<close> is an exception of a host facility (\<^verbatim>\<open>open\<close>, a custom validator).
  \<open>OutsideModel\<close> is not a JavaScript exception: it marks a text whose value the
  types above cannot hold (a number with a fraction or an exponent, a code unit above 255).
\<close>

datatype error =
    StoredValueNotFound string
  | UnsupportedBodyType string
  | TypeError string
  | SyntaxError string
  | HostError string
  | OutsideModel

definition object_prototype_names :: "string list" where
  "object_prototype_names =
     [''constructor'', ''hasOwnProperty'', ''isPrototypeOf'', ''propertyIsEnumerable'',
      ''toLocaleString'', ''toString'', ''valueOf'', ''__proto__'', ''__defineGetter__'',
      ''__defineSetter__'', ''__lookupGetter__'', ''__lookupSetter__'']"

abbreviation DQ :: char where "DQ \<equiv> CHR 0x22"
abbreviation BSL :: char where "BSL \<equiv> CHR 0x5C"

subsection \<open>Number and value to string\<close>

definition digit_char :: "nat \<Rightarrow> char" where
  "digit_char d = char_of (48 + d)"

function show_nat :: "nat \<Rightarrow> string" where
  "show_nat n = (if n < 10 then [digit_char n] else show_nat (n div 10) @ [digit_char (n mod 10)])"
  by pat_completeness auto
termination
  by (relation "measure id") auto

declare show_nat.simps [simp del]

definition show_int :: "int \<Rightarrow> string" where
  "show_int i = (if i < 0 then CHR ''-'' # show_nat (nat (- i)) else show_nat (nat i))"

fun join :: "string \<Rightarrow> string list \<Rightarrow> string" where
  "join sep [] = []"
| "join sep [x] = x"
| "join sep (x # y # ys) = x @ sep @ join sep (y # ys)"

text \<open>
  \<^verbatim>\<open>String(v)\<close>, the conversion a template literal, \<^verbatim>\<open>String.prototype.replace\<close> (on
  the value its callback returns) and \<^verbatim>\<open>RegExp.prototype.test\<close> apply. An array is its
  elements joined by commas, \<^verbatim>\<open>null\<close> elements giving the empty string.
\<close>

fun to_string :: "json \<Rightarrow> string" where
  "to_string JNull = ''null''"
| "to_string (JBool b) = (if b then ''true'' else ''false'')"
| "to_string (JNum n) = show_int n"
| "to_string (JStr s) = s"
| "to_string (JArr xs) = join '','' (map (\<lambda>x. if x = JNull then [] else to_string x) xs)"
| "to_string (JObj kvs) = ''[object Object]''"

fun js_string :: "jsvalue \<Rightarrow> string" where
  "js_string Undefined = ''undefined''"
| "js_string (Val v) = to_string v"

text \<open>Truthiness, as \<^verbatim>\<open>!x\<close>, \<^verbatim>\<open>x || y\<close> and \<^verbatim>\<open>if (x)\<close> read it.\<close>

fun truthy :: "json \<Rightarrow> bool" where
  "truthy JNull = False"
| "truthy (JBool b) = b"
| "truthy (JNum n) = (n \<noteq> 0)"
| "truthy (JStr s) = (s \<noteq> [])"
| "truthy (JArr xs) = True"
| "truthy (JObj kvs) = True"

section \<open>JSON text\<close>

subsection \<open>\<^verbatim>\<open>JSON.stringify\<close>\<close>

definition hex_digit :: "nat \<Rightarrow> char" where
  "hex_digit d = (if d < 10 then char_of (48 + d) else char_of (87 + d))"

text \<open>
  QuoteJSONString: the quote, the backslash and the control characters are escaped, the
  five with a short form by it, the others as \<^verbatim>\<open>\u00xx\<close> in lower-case hexadecimal.
\<close>

definition escape_char :: "char \<Rightarrow> string" where
  "escape_char c =
     (if c = DQ then [BSL, DQ]
      else if c = BSL then [BSL, BSL]
      else if c = CHR 0x08 then [BSL, CHR ''b'']
      else if c = CHR 0x0C then [BSL, CHR ''f'']
      else if c = CHR 0x0A then [BSL, CHR ''n'']
      else if c = CHR 0x0D then [BSL, CHR ''r'']
      else if c = CHR 0x09 then [BSL, CHR ''t'']
      else if (of_char c :: nat) < 32 then
        [BSL, CHR ''u'', CHR ''0'', CHR ''0'',
         hex_digit ((of_char c :: nat) div 16), hex_digit ((of_char c :: nat) mod 16)]
      else [c])"

definition quote :: "string \<Rightarrow> string" where
  "quote s = DQ # concat (map escape_char s) @ [DQ]"

text \<open>Without an indent argument the output has no white space.\<close>

fun JSON_stringify :: "json \<Rightarrow> string"
  and stringify_elements :: "json list \<Rightarrow> string"
  and stringify_members :: "(string \<times> json) list \<Rightarrow> string"
where
  "JSON_stringify JNull = ''null''"
| "JSON_stringify (JBool b) = (if b then ''true'' else ''false'')"
| "JSON_stringify (JNum n) = show_int n"
| "JSON_stringify (JStr s) = quote s"
| "JSON_stringify (JArr xs) = ''['' @ stringify_elements xs @ '']''"
| "JSON_stringify (JObj kvs) = ''{'' @ stringify_members kvs @ ''}''"
| "stringify_elements [] = []"
| "stringify_elements (x # xs) =
     JSON_stringify x @ (if xs = [] then [] else '','' @ stringify_elements xs)"
| "stringify_members [] = []"
| "stringify_members (kv # kvs) =
     quote (fst kv) @ '':'' @ JSON_stringify (snd kv)
       @ (if kvs = [] then [] else '','' @ stringify_members kvs)"

subsection \<open>\<^verbatim>\<open>JSON.parse\<close>\<close>

definition is_ws :: "char \<Rightarrow> bool" where
  "is_ws c = (c = CHR 0x20 \<or> c = CHR 0x09 \<or> c = CHR 0x0A \<or> c = CHR 0x0D)"

definition skip_ws :: "string \<Rightarrow> string" where
  "skip_ws s = dropWhile is_ws s"

definition is_digit :: "char \<Rightarrow> bool" where
  "is_digit c = (48 \<le> (of_char c :: nat) \<and> (of_char c :: nat) \<le> 57)"

definition digit_val :: "char \<Rightarrow> nat" where
  "digit_val c = of_char c - 48"

definition read_nat :: "string \<Rightarrow> nat" where
  "read_nat ds = foldl (\<lambda>n c. 10 * n + digit_val c) 0 ds"

definition hex_val :: "char \<Rightarrow> nat option" where
  "hex_val c =
     (let n = (of_char c :: nat) in
      if 48 \<le> n \<and> n \<le> 57 then Some (n - 48)
      else if 97 \<le> n \<and> n \<le> 102 then Some (n - 87)
      else if 65 \<le> n \<and> n \<le> 70 then Some (n - 55)
      else None)"

definition hex4 :: "char \<Rightarrow> char \<Rightarrow> char \<Rightarrow> char \<Rightarrow> nat option" where
  "hex4 a b c d =
     (case (hex_val a, hex_val b, hex_val c, hex_val d) of
        (Some w, Some x, Some y, Some z) \<Rightarrow> Some (((w * 16 + x) * 16 + y) * 16 + z)
      | _ \<Rightarrow> None)"

definition unescape :: "char \<Rightarrow> char option" where
  "unescape e =
     (if e = DQ then Some DQ
      else if e = BSL then Some BSL
      else if e = CHR ''/'' then Some (CHR ''/'')
      else if e = CHR ''b'' then Some (CHR 0x08)
      else if e = CHR ''f'' then Some (CHR 0x0C)
      else if e = CHR ''n'' then Some (CHR 0x0A)
      else if e = CHR ''r'' then Some (CHR 0x0D)
      else if e = CHR ''t'' then Some (CHR 0x09)
      else None)"

definition cons_char :: "char \<Rightarrow> error + (string \<times> string) \<Rightarrow> error + (string \<times> string)" where
  "cons_char c res = (case res of Inl e \<Rightarrow> Inl e | Inr (s, r) \<Rightarrow> Inr (c # s, r))"

text \<open>
  The characters of a string after its opening quote, up to the closing one; the result
  is the decoded string and the text behind the closing quote.
\<close>

fun parse_string :: "string \<Rightarrow> error + (string \<times> string)" where
  "parse_string [] = Inl (SyntaxError ''Unterminated string in JSON'')"
| "parse_string (c # cs) =
     (if c = DQ then Inr ([], cs)
      else if c = BSL then
        (case cs of
           [] \<Rightarrow> Inl (SyntaxError ''Unterminated string in JSON'')
         | e # r \<Rightarrow>
             if e = CHR ''u'' then
               (case r of
                  w # x # y # z # r' \<Rightarrow>
                    (case hex4 w x y z of
                       None \<Rightarrow> Inl (SyntaxError ''Bad Unicode escape in JSON'')
                     | Some n \<Rightarrow>
                         if n < 256 then cons_char (char_of n) (parse_string r')
                         else Inl OutsideModel)
                | _ \<Rightarrow> Inl (SyntaxError ''Bad Unicode escape in JSON''))
             else
               (case unescape e of
                  None \<Rightarrow> Inl (SyntaxError ''Bad escaped character in JSON'')
                | Some x \<Rightarrow> cons_char x (parse_string r)))
      else if (of_char c :: nat) < 32 then Inl (SyntaxError ''Bad control character in JSON'')
      else cons_char c (parse_string cs))"

text \<open>
  A number: an optional minus sign and the digits of an integer without a leading zero.
  A fraction or an exponent behind them makes a number that is no integer.
\<close>

definition parse_number :: "string \<Rightarrow> error + (json \<times> string)" where
  "parse_number s =
     (let neg = (s \<noteq> [] \<and> hd s = CHR ''-'');
          s1 = (if neg then tl s else s);
          ds = takeWhile is_digit s1;
          rest = dropWhile is_digit s1
      in if ds = [] then Inl (SyntaxError ''No number after minus sign in JSON'')
         else if hd ds = CHR ''0'' \<and> length ds > 1 then Inl (SyntaxError ''Unexpected number in JSON'')
         else if rest \<noteq> [] \<and> (hd rest = CHR ''.'' \<or> hd rest = CHR ''e'' \<or> hd rest = CHR ''E'')
           then Inl OutsideModel
         else Inr (JNum (if neg then - int (read_nat ds) else int (read_nat ds)), rest))"

definition parse_literal :: "string \<Rightarrow> error + (json \<times> string)" where
  "parse_literal s =
     (if take 4 s = ''null'' then Inr (JNull, drop 4 s)
      else if take 4 s = ''true'' then Inr (JBool True, drop 4 s)
      else if take 5 s = ''false'' then Inr (JBool False, drop 5 s)
      else Inl (SyntaxError ''Unexpected token in JSON''))"

text \<open>
  The members of an object literal become the object's properties by assignment in
  order: a repeated key keeps its first position and takes the last value.
\<close>

definition assign_all :: "(string \<times> 'a) list \<Rightarrow> (string \<times> 'a) list \<Rightarrow> (string \<times> 'a) list" where
  "assign_all target source = foldl (\<lambda>acc kv. AList.update (fst kv) (snd kv) acc) target source"

lemma length_skip_ws: "length (skip_ws s) \<le> length s"
  by (simp add: skip_ws_def length_dropWhile_le)

lemma skip_ws_Cons_shorter: "skip_ws s = c # r \<Longrightarrow> length r < length s"
  using length_skip_ws [of s] by simp

lemma parse_string_shorter: "parse_string s = Inr (str, r) \<Longrightarrow> length r < length s"
proof (induction s arbitrary: str r rule: parse_string.induct)
  case 1
  then show ?case by simp
next
  case (2 c cs)
  then show ?case
    by (auto simp: cons_char_def split: if_splits list.splits option.splits sum.splits prod.splits)
      fastforce+
qed

text \<open>
  The recursive descent. \<open>parse_elements\<close> reads the elements of an array behind its
  opening bracket, \<open>parse_members\<close> the members of an object behind its opening brace.
  The two length tests before a recursive call on the text left by a value never fail
  (\<open>parse_value_shorter\<close>); they only show that the recursion ends.
\<close>

function parse_value :: "string \<Rightarrow> error + (json \<times> string)"
  and parse_elements :: "string \<Rightarrow> error + (json list \<times> string)"
  and parse_members :: "string \<Rightarrow> error + ((string \<times> json) list \<times> string)"
where
  "parse_value s =
     (case skip_ws s of
        [] \<Rightarrow> Inl (SyntaxError ''Unexpected end of JSON input'')
      | c # r \<Rightarrow>
          if c = CHR ''['' then
            (case skip_ws r of
               [] \<Rightarrow> Inl (SyntaxError ''Unexpected end of JSON input'')
             | c' # r' \<Rightarrow>
                 if c' = CHR '']'' then Inr (JArr [], r')
                 else (case parse_elements r of
                         Inl e \<Rightarrow> Inl e
                       | Inr (vs, r'') \<Rightarrow> Inr (JArr vs, r'')))
          else if c = CHR ''{'' then
            (case skip_ws r of
               [] \<Rightarrow> Inl (SyntaxError ''Unexpected end of JSON input'')
             | c' # r' \<Rightarrow>
                 if c' = CHR ''}'' then Inr (JObj [], r')
                 else (case parse_members r of
                         Inl e \<Rightarrow> Inl e
                       | Inr (kvs, r'') \<Rightarrow> Inr (JObj (assign_all [] kvs), r'')))
          else if c = DQ then
            (case parse_string r of
               Inl e \<Rightarrow> Inl e
             | Inr (str, r') \<Rightarrow> Inr (JStr str, r'))
          else if c = CHR ''-'' \<or> is_digit c then parse_number (c # r)
          else parse_literal (c # r))"
| "parse_elements s =
     (case parse_value s of
        Inl e \<Rightarrow> Inl e
      | Inr (v, r) \<Rightarrow>
          (case skip_ws r of
             [] \<Rightarrow> Inl (SyntaxError ''Unexpected end of JSON input'')
           | c # r' \<Rightarrow>
               if c = CHR '','' then
                 (if length r' < length s then
                    (case parse_elements r' of
                       Inl e \<Rightarrow> Inl e
                     | Inr (vs, r'') \<Rightarrow> Inr (v # vs, r''))
                  else Inl (SyntaxError ''Unexpected token in JSON''))
               else if c = CHR '']'' then Inr ([v], r')
               else Inl (SyntaxError ''Unexpected token in JSON'')))"
| "parse_members s =
     (case skip_ws s of
        [] \<Rightarrow> Inl (SyntaxError ''Unexpected end of JSON input'')
      | c # r \<Rightarrow>
          if c = DQ then
            (case parse_string r of
               Inl e \<Rightarrow> Inl e
             | Inr (k, r1) \<Rightarrow>
                 (case skip_ws r1 of
                    [] \<Rightarrow> Inl (SyntaxError ''Unexpected end of JSON input'')
                  | c1 # r2 \<Rightarrow>
                      if c1 = CHR '':'' then
                        (case parse_value r2 of
                           Inl e \<Rightarrow> Inl e
                         | Inr (v, r3) \<Rightarrow>
                             (case skip_ws r3 of
                                [] \<Rightarrow> Inl (SyntaxError ''Unexpected end of JSON input'')
                              | c3 # r4 \<Rightarrow>
                                  if c3 = CHR '','' then
                                    (if length r4 < length s then
                                       (case parse_members r4 of
                                          Inl e \<Rightarrow> Inl e
                                        | Inr (kvs, r5) \<Rightarrow> Inr ((k, v) # kvs, r5))
                                     else Inl (SyntaxError ''Unexpected token in JSON''))
                                  else if c3 = CHR ''}'' then Inr ([(k, v)], r4)
                                  else Inl (SyntaxError ''Unexpected token in JSON'')))
                      else Inl (SyntaxError ''Unexpected token in JSON'')))
          else Inl (SyntaxError ''Unexpected token in JSON''))"
  by pat_completeness auto

termination
proof (relation "measures
    [\<lambda>x. case x of Inl s \<Rightarrow> length s | Inr (Inl s) \<Rightarrow> length s | Inr (Inr s) \<Rightarrow> length s,
     \<lambda>x. case x of Inl s \<Rightarrow> 0 | Inr (Inl s) \<Rightarrow> 1 | Inr (Inr s) \<Rightarrow> 0]", goal_cases)
  case 1
  then show ?case by simp
next
  case (2 s c r c' r')
  then show ?case by (simp add: skip_ws_Cons_shorter)
next
  case (3 s c r c' r')
  then show ?case by (simp add: skip_ws_Cons_shorter)
next
  case (4 s)
  then show ?case by simp
next
  case (5 s x v r c r')
  then show ?case by simp
next
  case (6 s c r x k r1 c1 r2)
  then show ?case
    using skip_ws_Cons_shorter [of s c r] parse_string_shorter [of r k r1]
      skip_ws_Cons_shorter [of r1 c1 r2]
    by simp
next
  case (7 s c r x k r1 c1 r2 y v r3 c3 r4)
  then show ?case by simp
qed

declare parse_value.simps [simp del] parse_elements.simps [simp del] parse_members.simps [simp del]

definition JSON_parse :: "string \<Rightarrow> error + json" where
  "JSON_parse text =
     (case parse_value text of
        Inl e \<Rightarrow> Inl e
      | Inr (v, r) \<Rightarrow>
          if skip_ws r = [] then Inr v
          else Inl (SyntaxError ''Unexpected non-whitespace character after JSON''))"

section \<open>Configuration and run-time data\<close>

text \<open>
  \<^verbatim>\<open>a || b\<close> on an optional number or string: the default is taken when the left side
  is \<^verbatim>\<open>undefined\<close> and also when it is \<^verbatim>\<open>0\<close> or the empty string.
\<close>

definition or_int :: "int option \<Rightarrow> int \<Rightarrow> int" where
  "or_int a b = (case a of None \<Rightarrow> b | Some v \<Rightarrow> if v \<noteq> 0 then v else b)"

definition or_string :: "string option \<Rightarrow> string \<Rightarrow> string" where
  "or_string a b = (case a of None \<Rightarrow> b | Some v \<Rightarrow> if v \<noteq> [] then v else b)"

text \<open>The body descriptor of an endpoint: \<^verbatim>\<open>{ type, content, contentType }\<close>.\<close>

record body_config =
  body_type :: string
  content :: json
  contentType :: "string option"

text \<open>
  A field descriptor of \<^verbatim>\<open>expectedContent\<close>: \<^verbatim>\<open>type\<close>, and the option names that
  \<^verbatim>\<open>endpoints.js\<close> documents (\<^verbatim>\<open>values\<close>, \<^verbatim>\<open>pattern\<close>, \<^verbatim>\<open>validator\<close>, \<^verbatim>\<open>minLength\<close>,
  \<^verbatim>\<open>maxLength\<close>, \<^verbatim>\<open>min\<close>, \<^verbatim>\<open>max\<close>). A property of a descriptor is JSON data or a
  function.
\<close>

datatype option_value =
    OData json
  | OFun string "jsvalue \<Rightarrow> error + bool"

record field_descriptor =
  field_type :: string
  values_prop :: "option_value option"
  pattern_prop :: "option_value option"
  validator_prop :: "option_value option"
  minLength :: "int option"
  maxLength :: "int option"
  min_value :: "int option"
  max_value :: "int option"

text \<open>The \<^verbatim>\<open>config\<close> of an endpoint.\<close>

record test_config =
  vus :: "int option"
  duration :: "string option"
  responseTime :: "int option"
  thresholds :: "(string \<times> string list) list option"
  target :: "int option"

record endpoint_config =
  baseURL :: "string option"
  path :: string
  http_method :: string
  tags :: "(string \<times> string) list"
  config :: "test_config option"
  headers :: "(string \<times> string) list"
  body :: "body_config option"
  expectedStatus :: "int option"
  expectedContent :: "(string \<times> field_descriptor) list option"
  storeResponse :: "(string \<times> string) list option"

text \<open>\<^verbatim>\<open>globalConfig\<close> of \<^verbatim>\<open>config.js\<close>.\<close>

record default_test_config =
  default_vus :: int
  default_duration :: string
  default_responseTime :: int
  default_thresholds :: "(string \<times> string list) list"

record content_types =
  json_type :: string
  formData_type :: string
  urlEncoded_type :: string
  text_type :: string

record global_config =
  global_baseURL :: string
  global_headers :: "(string \<times> string) list"
  defaultTestConfig :: default_test_config
  slowRequestThreshold :: int
  contentTypes :: content_types

text \<open>What \<^verbatim>\<open>prepareRequestBody\<close> returns: a \<^verbatim>\<open>FormData\<close> or a string.\<close>

datatype form_value = FileData string | FieldValue json

datatype request_body = FormDataBody "(string \<times> form_value) list" | TextBody string

record params =
  params_headers :: "(string \<times> string) list"
  params_tags :: "(string \<times> string) list"

text \<open>The two calls of the transport: \<^verbatim>\<open>http.get(url, params)\<close> and
  \<^verbatim>\<open>http.request(method, url, body, params)\<close>.\<close>

datatype http_call =
    HttpGet string params
  | HttpRequest string string "request_body option" params

record response =
  response_body :: "string option"
  status :: int

text \<open>
  One exchange with the server as the invocation sees it: the response, the start time
  in ISO form, and \<^verbatim>\<open>endTime - startTime\<close> in milliseconds.
\<close>

record exchange =
  received :: response
  startTime :: string
  elapsed :: int

record slow_request =
  slow_endpoint :: string
  slow_duration :: int
  slow_timestamp :: string
  slow_method :: string
  slow_url :: string
  slow_status :: int
  slow_threshold :: int

text \<open>
  Everything an invocation does to the outside, in order: a sample added to one of the
  five custom metrics (by the metric's name, with its value and tags), a console line, a
  call of the transport, \<^verbatim>\<open>check\<close>, \<^verbatim>\<open>sleep\<close>.
\<close>

datatype event =
    MetricAdd string json "(string \<times> json) list"
  | ConsoleError string
  | ConsoleWarn string
  | Http http_call
  | Check "(string \<times> bool) list"
  | Sleep nat

text \<open>The module state: \<^verbatim>\<open>storedData\<close>, \<^verbatim>\<open>slowRequests\<close>, and the trace of effects.\<close>

record state =
  storedData :: "string \<rightharpoonup> jsvalue"
  slowRequests :: "slow_request list"
  trace :: "event list"

text \<open>
  The host: regular expressions, \<^verbatim>\<open>Date.parse\<close>, \<^verbatim>\<open>URL\<close>, \<^verbatim>\<open>encodeURIComponent\<close>,
  k6's \<^verbatim>\<open>open\<close>, the transport with the clock, and the members of
  \<^verbatim>\<open>Object.prototype\<close>: \<open>inherited_call h name value options\<close> is the call
  \<^verbatim>\<open>m(value, options)\<close> of the member \<^verbatim>\<open>m\<close> inherited under \<open>name\<close>, that is its
  exception (also that of calling a member that is no function) or the truthiness of
  what it returns. Every statement below holds for any host.
\<close>

record host =
  regexp_valid :: "string \<Rightarrow> bool"
  regexp_test :: "string \<Rightarrow> bool \<Rightarrow> string \<Rightarrow> bool"
  date_parse_nan :: "string \<Rightarrow> bool"
  url_valid :: "string \<Rightarrow> bool"
  encodeURIComponent :: "string \<Rightarrow> string"
  open_file :: "jsvalue \<Rightarrow> error + string"
  http :: "http_call \<Rightarrow> exchange"
  inherited_call :: "string \<Rightarrow> jsvalue \<Rightarrow> option_value option \<Rightarrow> error + bool"

abbreviation SQ :: char where "SQ \<equiv> CHR 0x27"

text \<open>\<^verbatim>\<open>error.message\<close>.\<close>

fun message :: "error \<Rightarrow> string" where
  "message (StoredValueNotFound key) = ''Stored value '' @ [SQ] @ key @ [SQ] @ '' not found''"
| "message (UnsupportedBodyType t) = ''Unsupported body type: '' @ t"
| "message (TypeError m) = m"
| "message (SyntaxError m) = m"
| "message (HostError m) = m"
| "message OutsideModel = []"

text \<open>
  A \<^verbatim>\<open>catch\<close> takes every JavaScript exception. \<open>OutsideModel\<close> is none: where it
  appears the model says nothing about the run, so it passes every handler.
\<close>

definition catchable :: "error \<Rightarrow> bool" where
  "catchable e = (e \<noteq> OutsideModel)"

text \<open>Effects in sequence: the events of a step in front of those of what follows.\<close>

definition after :: "event list \<Rightarrow> event list \<times> 'a \<Rightarrow> event list \<times> 'a" where
  "after evs r = (evs @ fst r, snd r)"

subsection \<open>Property reads and \<^verbatim>\<open>Object.entries\<close>\<close>

text \<open>
  \<^verbatim>\<open>obj[key]\<close> on JSON data. On \<^verbatim>\<open>null\<close> the read raises a TypeError. On an object
  it yields the own property; without one it yields \<^verbatim>\<open>undefined\<close>, unless the name is
  inherited: the member found then is no JSON data, and the read is \<open>OutsideModel\<close>.
  On an array or a string it yields \<^verbatim>\<open>length\<close>, the element at an index, and
  \<^verbatim>\<open>undefined\<close> at an index out of range; every other name, and every name on a number
  or a boolean, may be inherited from a prototype and is \<open>OutsideModel\<close>.
\<close>

definition index_of_key :: "string \<Rightarrow> nat \<Rightarrow> nat option" where
  "index_of_key key n = find (\<lambda>i. show_nat i = key) [0..<n]"

definition is_index :: "string \<Rightarrow> bool" where
  "is_index key = (key \<noteq> [] \<and> list_all is_digit key \<and> show_nat (read_nat key) = key)"

fun get_prop :: "json \<Rightarrow> string \<Rightarrow> error + jsvalue" where
  "get_prop JNull key = Inl (TypeError ''Cannot read properties of null'')"
| "get_prop (JObj kvs) key =
     (case map_of kvs key of
        Some v \<Rightarrow> Inr (Val v)
      | None \<Rightarrow> if key \<in> set object_prototype_names then Inl OutsideModel else Inr Undefined)"
| "get_prop (JArr xs) key =
     (if key = ''length'' then Inr (Val (JNum (int (length xs))))
      else if is_index key then
        Inr (case index_of_key key (length xs) of
               None \<Rightarrow> Undefined
             | Some i \<Rightarrow> Val (xs ! i))
      else Inl OutsideModel)"
| "get_prop (JStr s) key =
     (if key = ''length'' then Inr (Val (JNum (int (length s))))
      else if is_index key then
        Inr (case index_of_key key (length s) of
               None \<Rightarrow> Undefined
             | Some i \<Rightarrow> Val (JStr [s ! i]))
      else Inl OutsideModel)"
| "get_prop _ key = Inl OutsideModel"

fun index_entries :: "nat \<Rightarrow> 'a list \<Rightarrow> (string \<times> 'a) list" where
  "index_entries i [] = []"
| "index_entries i (x # xs) = (show_nat i, x) # index_entries (Suc i) xs"

fun object_entries :: "json \<Rightarrow> error + (string \<times> json) list" where
  "object_entries JNull = Inl (TypeError ''Cannot convert undefined or null to object'')"
| "object_entries (JObj kvs) = Inr kvs"
| "object_entries (JArr xs) = Inr (index_entries 0 xs)"
| "object_entries (JStr s) = Inr (index_entries 0 (map (\<lambda>c. JStr [c]) s))"
| "object_entries _ = Inr []"

section \<open>validators.js\<close>

text \<open>
  The second argument of a validator is whatever the caller passes: JSON data, a
  function (given by its source text and its behaviour), or \<^verbatim>\<open>undefined\<close>.
\<close>

text \<open>
  \<^verbatim>\<open>Array.prototype.includes\<close> compares with SameValueZero: primitives by value, arrays
  and objects by identity, and a value read from a parsed response is never identical to
  an array or object written in the schema.
\<close>

fun same_value_zero :: "json \<Rightarrow> jsvalue \<Rightarrow> bool" where
  "same_value_zero JNull (Val JNull) = True"
| "same_value_zero (JBool a) (Val (JBool b)) = (a = b)"
| "same_value_zero (JNum a) (Val (JNum b)) = (a = b)"
| "same_value_zero (JStr a) (Val (JStr b)) = (a = b)"
| "same_value_zero _ _ = False"

fun is_substring :: "string \<Rightarrow> string \<Rightarrow> bool" where
  "is_substring p [] = (p = [])"
| "is_substring p (c # cs) = (take (length p) (c # cs) = p \<or> is_substring p cs)"

text \<open>
  \<^verbatim>\<open>allowedValues.includes(value)\<close>: reading \<^verbatim>\<open>includes\<close> of \<^verbatim>\<open>undefined\<close> or
  \<^verbatim>\<open>null\<close> raises; an array and a string have the method; on anything else the property
  is \<^verbatim>\<open>undefined\<close> and the call raises.
\<close>

fun js_includes :: "option_value option \<Rightarrow> jsvalue \<Rightarrow> error + bool" where
  "js_includes None value = Inl (TypeError ''Cannot read properties of undefined (reading includes)'')"
| "js_includes (Some (OData JNull)) value = Inl (TypeError ''Cannot read properties of null (reading includes)'')"
| "js_includes (Some (OData (JArr xs))) value = Inr (list_ex (\<lambda>x. same_value_zero x value) xs)"
| "js_includes (Some (OData (JStr s))) value = Inr (is_substring (js_string value) s)"
| "js_includes (Some _) value = Inl (TypeError ''allowedValues.includes is not a function'')"

text \<open>
  \<^verbatim>\<open>new RegExp(pattern).test(value)\<close>. The source of the expression is the empty
  string for \<^verbatim>\<open>undefined\<close>, the string of anything else, the source text of a
  function. The empty source is the expression \<^verbatim>\<open>(?:)\<close>, which every subject matches;
  a source that is no regular expression raises a SyntaxError.
\<close>

fun pattern_text :: "option_value option \<Rightarrow> string" where
  "pattern_text None = []"
| "pattern_text (Some (OData v)) = to_string v"
| "pattern_text (Some (OFun src f)) = src"

definition regexp_literal_test :: "host \<Rightarrow> string \<Rightarrow> bool \<Rightarrow> jsvalue \<Rightarrow> error + bool" where
  "regexp_literal_test h src icase value = Inr (regexp_test h src icase (js_string value))"

definition new_regexp_test :: "host \<Rightarrow> option_value option \<Rightarrow> jsvalue \<Rightarrow> error + bool" where
  "new_regexp_test h p value =
     (if pattern_text p = [] then Inr True
      else if regexp_valid h (pattern_text p)
      then Inr (regexp_test h (pattern_text p) False (js_string value))
      else Inl (SyntaxError ''Invalid regular expression''))"

fun call_function :: "option_value option \<Rightarrow> jsvalue \<Rightarrow> error + bool" where
  "call_function (Some (OFun src f)) value = f value"
| "call_function _ value = Inl (TypeError ''validatorFn is not a function'')"

text \<open>The thirteen entries of \<^verbatim>\<open>validators\<close>, each \<^verbatim>\<open>(value, options) => ...\<close>.\<close>

definition v_text :: "jsvalue \<Rightarrow> option_value option \<Rightarrow> error + bool" where
  "v_text value opts = Inr (case value of Val (JStr s) \<Rightarrow> True | _ \<Rightarrow> False)"

definition v_email :: "host \<Rightarrow> jsvalue \<Rightarrow> option_value option \<Rightarrow> error + bool" where
  "v_email h value opts = regexp_literal_test h
       (''^[^'' @ [BSL] @ ''s@]+@[^'' @ [BSL] @ ''s@]+'' @ [BSL] @ ''.[^'' @ [BSL] @ ''s@]+$'')
       False value"

definition v_number :: "jsvalue \<Rightarrow> option_value option \<Rightarrow> error + bool" where
  "v_number value opts = Inr (case value of Val (JNum n) \<Rightarrow> True | _ \<Rightarrow> False)"

definition v_boolean :: "jsvalue \<Rightarrow> option_value option \<Rightarrow> error + bool" where
  "v_boolean value opts = Inr (case value of Val (JBool b) \<Rightarrow> True | _ \<Rightarrow> False)"

definition v_date :: "host \<Rightarrow> jsvalue \<Rightarrow> option_value option \<Rightarrow> error + bool" where
  "v_date h value opts = Inr (\<not> date_parse_nan h (js_string value))"

definition v_url :: "host \<Rightarrow> jsvalue \<Rightarrow> option_value option \<Rightarrow> error + bool" where
  "v_url h value opts = Inr (url_valid h (js_string value))"

definition v_array :: "jsvalue \<Rightarrow> option_value option \<Rightarrow> error + bool" where
  "v_array value opts = Inr (case value of Val (JArr xs) \<Rightarrow> True | _ \<Rightarrow> False)"

definition v_object :: "jsvalue \<Rightarrow> option_value option \<Rightarrow> error + bool" where
  "v_object value opts = Inr (case value of Val (JObj kvs) \<Rightarrow> True | _ \<Rightarrow> False)"

definition v_phone :: "host \<Rightarrow> jsvalue \<Rightarrow> option_value option \<Rightarrow> error + bool" where
  "v_phone h value opts = regexp_literal_test h
       (''^'' @ [BSL] @ ''+?['' @ [BSL] @ ''d'' @ [BSL] @ ''s'' @ [BSL] @ ''('' @ [BSL] @ '')'' @ [BSL]
          @ ''-]{8,}$'')
       False value"

definition v_uuid :: "host \<Rightarrow> jsvalue \<Rightarrow> option_value option \<Rightarrow> error + bool" where
  "v_uuid h value opts =
     regexp_literal_test h
       ''^[0-9a-f]{8}-[0-9a-f]{4}-4[0-9a-f]{3}-[89ab][0-9a-f]{3}-[0-9a-f]{12}$'' True value"

definition v_enum :: "jsvalue \<Rightarrow> option_value option \<Rightarrow> error + bool" where
  "v_enum value allowedValues = js_includes allowedValues value"

definition v_regex :: "host \<Rightarrow> jsvalue \<Rightarrow> option_value option \<Rightarrow> error + bool" where
  "v_regex h value pattern = new_regexp_test h pattern value"

definition v_custom :: "jsvalue \<Rightarrow> option_value option \<Rightarrow> error + bool" where
  "v_custom value validatorFn = call_function validatorFn value"

text \<open>
  \<^verbatim>\<open>validators[name]\<close>: one of the thirteen entries, or the member that the object
  literal inherits under that name, or \<^verbatim>\<open>undefined\<close> (\<open>None\<close>). The thirteen return
  booleans; the result of any other function is taken by its truthiness, which is all the
  callers read of it (\<^verbatim>\<open>!isValid\<close>, \<^verbatim>\<open>check\<close>, \<^verbatim>\<open>every(Boolean)\<close>).
\<close>

definition validators ::
  "host \<Rightarrow> string \<Rightarrow> (jsvalue \<Rightarrow> option_value option \<Rightarrow> error + bool) option" where
  "validators h name =
     (if name = ''text'' then Some v_text
      else if name = ''email'' then Some (v_email h)
      else if name = ''number'' then Some v_number
      else if name = ''boolean'' then Some v_boolean
      else if name = ''date'' then Some (v_date h)
      else if name = ''url'' then Some (v_url h)
      else if name = ''array'' then Some v_array
      else if name = ''object'' then Some v_object
      else if name = ''phone'' then Some (v_phone h)
      else if name = ''uuid'' then Some (v_uuid h)
      else if name = ''enum'' then Some v_enum
      else if name = ''regex'' then Some (v_regex h)
      else if name = ''custom'' then Some v_custom
      else if name \<in> set object_prototype_names then Some (inherited_call h name)
      else None)"

text \<open>
  \<^verbatim>\<open>validators[typeName](value, options)\<close>, the lookup followed by the call; the
  specification names it \<^verbatim>\<open>validate(typeName, value, options)\<close>.
\<close>

definition validate :: "host \<Rightarrow> string \<Rightarrow> jsvalue \<Rightarrow> option_value option \<Rightarrow> error + bool" where
  "validate h typeName value opts =
     (case validators h typeName of
        None \<Rightarrow> Inl (TypeError ''validator is not a function'')
      | Some validator \<Rightarrow> validator value opts)"

section \<open>main.js\<close>

subsection \<open>The placeholder pattern\<close>

text \<open>
  \<^verbatim>\<open>text.replace(/\${stored\.(.*?)}/g, callback)\<close>. A match starts at the nine characters
  \<^verbatim>\<open>${stored.\<close>; the lazy group takes the characters up to the first closing brace and
  may not cross a line terminator. The matches are found from left to right, each search
  starting behind the previous match, and the callback is then applied to each in turn.
\<close>

definition is_line_terminator :: "char \<Rightarrow> bool" where
  "is_line_terminator c = (c = CHR 0x0A \<or> c = CHR 0x0D)"

fun match_key :: "string \<Rightarrow> (string \<times> string) option" where
  "match_key [] = None"
| "match_key (c # cs) =
     (if c = CHR ''}'' then Some ([], cs)
      else if is_line_terminator c then None
      else (case match_key cs of
              None \<Rightarrow> None
            | Some (key, rest) \<Rightarrow> Some (c # key, rest)))"

definition match_placeholder :: "string \<Rightarrow> (string \<times> string) option" where
  "match_placeholder s = (if take 9 s = ''${stored.'' then match_key (drop 9 s) else None)"

lemma match_key_shorter: "match_key s = Some (key, rest) \<Longrightarrow> length rest < length s"
  by (induction s arbitrary: key rest) (auto split: if_splits option.splits)

lemma match_placeholder_shorter:
  "match_placeholder s = Some (key, rest) \<Longrightarrow> length rest < length s"
  by (auto simp: match_placeholder_def split: if_splits dest!: match_key_shorter)

text \<open>The text cut into its matches and the characters between them.\<close>

datatype piece = Literal char | Placeholder string

function scan :: "string \<Rightarrow> piece list" where
  "scan [] = []"
| "scan (c # cs) =
     (case match_placeholder (c # cs) of
        Some (key, rest) \<Rightarrow> Placeholder key # scan rest
      | None \<Rightarrow> Literal c # scan cs)"
  by pat_completeness auto
termination
  by (relation "measure length") (auto dest: match_placeholder_shorter)

text \<open>
  The callback of \<^verbatim>\<open>prepareRequestBody\<close> on each match:
  \<^verbatim>\<open>if (!storedData.hasOwnProperty(key)) throw new Error(...); return storedData[key]\<close>,
  the returned value converted to a string by \<^verbatim>\<open>replace\<close>. The method is read from
  \<^verbatim>\<open>storedData\<close> itself: once a value is stored under the key \<^verbatim>\<open>hasOwnProperty\<close>, that
  value is what the read finds, and calling it raises a TypeError.
\<close>

fun replace_pieces :: "(string \<rightharpoonup> jsvalue) \<Rightarrow> piece list \<Rightarrow> error + string" where
  "replace_pieces stored [] = Inr []"
| "replace_pieces stored (Literal c # ps) =
     (case replace_pieces stored ps of
        Inl e \<Rightarrow> Inl e
      | Inr out \<Rightarrow> Inr (c # out))"
| "replace_pieces stored (Placeholder key # ps) =
     (if stored ''hasOwnProperty'' \<noteq> None
      then Inl (TypeError ''storedData.hasOwnProperty is not a function'')
      else
        (case stored key of
           None \<Rightarrow> Inl (StoredValueNotFound key)
         | Some v \<Rightarrow>
             (case replace_pieces stored ps of
                Inl e \<Rightarrow> Inl e
              | Inr out \<Rightarrow> Inr (js_string v @ out))))"

definition replace_stored :: "(string \<rightharpoonup> jsvalue) \<Rightarrow> string \<Rightarrow> error + string" where
  "replace_stored stored s = replace_pieces stored (scan s)"

text \<open>The keys of the placeholders of a text, in order.\<close>

fun keys_of :: "piece list \<Rightarrow> string list" where
  "keys_of [] = []"
| "keys_of (Literal c # ps) = keys_of ps"
| "keys_of (Placeholder key # ps) = key # keys_of ps"

definition placeholder_keys :: "string \<Rightarrow> string list" where
  "placeholder_keys s = keys_of (scan s)"

subsection \<open>\<^verbatim>\<open>prepareRequestBody\<close>\<close>

text \<open>Lines 98 to 105: serialize, replace, parse.\<close>

definition processedContent :: "json \<Rightarrow> (string \<rightharpoonup> jsvalue) \<Rightarrow> error + json" where
  "processedContent c stored =
     (case replace_stored stored (JSON_stringify c) of
        Inl e \<Rightarrow> Inl e
      | Inr s \<Rightarrow> JSON_parse s)"

text \<open>
  \<^verbatim>\<open>value?.type === 'file'\<close>: only an object can have the property, and no prototype
  has a member of that name.
\<close>

definition is_file :: "json \<Rightarrow> bool" where
  "is_file v = (case v of JObj kvs \<Rightarrow> map_of kvs ''type'' = Some (JStr ''file'') | _ \<Rightarrow> False)"

text \<open>The loop of the \<^verbatim>\<open>form-data\<close> case.\<close>

fun append_fields :: "host \<Rightarrow> (string \<times> json) list \<Rightarrow> error + (string \<times> form_value) list" where
  "append_fields h [] = Inr []"
| "append_fields h (kv # rest) =
     (case (if is_file (snd kv)
            then (case get_prop (snd kv) ''path'' of
                    Inl e \<Rightarrow> Inl e
                  | Inr p \<Rightarrow> (case open_file h p of Inl e \<Rightarrow> Inl e | Inr d \<Rightarrow> Inr (FileData d)))
            else Inr (FieldValue (snd kv))) of
        Inl e \<Rightarrow> Inl e
      | Inr fv \<Rightarrow>
          (case append_fields h rest of
             Inl e \<Rightarrow> Inl e
           | Inr fs \<Rightarrow> Inr ((fst kv, fv) # fs)))"

text \<open>The body of the \<^verbatim>\<open>try\<close> block.\<close>

definition prepare_body :: "host \<Rightarrow> body_config \<Rightarrow> (string \<rightharpoonup> jsvalue) \<Rightarrow> error + request_body" where
  "prepare_body h bodyConfig stored =
     (case processedContent (content bodyConfig) stored of
        Inl e \<Rightarrow> Inl e
      | Inr processed \<Rightarrow>
          if body_type bodyConfig = ''form-data'' then
            (case object_entries processed of
               Inl e \<Rightarrow> Inl e
             | Inr entries \<Rightarrow>
                 (case append_fields h entries of
                    Inl e \<Rightarrow> Inl e
                  | Inr fd \<Rightarrow> Inr (FormDataBody fd)))
          else if body_type bodyConfig = ''x-www-form-urlencoded'' then
            (case object_entries processed of
               Inl e \<Rightarrow> Inl e
             | Inr entries \<Rightarrow>
                 Inr (TextBody (join ''&''
                   (map (\<lambda>kv. fst kv @ ''='' @ encodeURIComponent h (to_string (snd kv))) entries))))
          else if body_type bodyConfig = ''raw'' then Inr (TextBody (JSON_stringify processed))
          else Inl (UnsupportedBodyType (body_type bodyConfig)))"

text \<open>
  \<^verbatim>\<open>prepareRequestBody(bodyConfig, storedData)\<close>: \<^verbatim>\<open>null\<close> without a body descriptor;
  an exception of the \<^verbatim>\<open>try\<close> block is logged and thrown again.
\<close>

definition prepareRequestBody ::
  "host \<Rightarrow> body_config option \<Rightarrow> (string \<rightharpoonup> jsvalue) \<Rightarrow> event list \<times> (error + request_body option)" where
  "prepareRequestBody h bodyConfig stored =
     (case bodyConfig of
        None \<Rightarrow> ([], Inr None)
      | Some bc \<Rightarrow>
          (case prepare_body h bc stored of
             Inl e \<Rightarrow>
               if catchable e
               then ([ConsoleError (''Error preparing request body: '' @ message e)], Inl e)
               else ([], Inl e)
           | Inr b \<Rightarrow> ([], Inr (Some b))))"

subsection \<open>\<^verbatim>\<open>parseResponse\<close>\<close>

text \<open>
  \<^verbatim>\<open>parseResponse(response, endpointConfig)\<close>. The second argument is optional in the
  model because \<^verbatim>\<open>validateResponseContent\<close> calls the function with one argument: the
  parameter is then \<^verbatim>\<open>undefined\<close>, and the template literal of the \<^verbatim>\<open>catch\<close> block,
  which reads \<^verbatim>\<open>endpointConfig.path\<close>, raises a TypeError.
\<close>

definition parseResponse :: "response \<Rightarrow> endpoint_config option \<Rightarrow> event list \<times> (error + json)" where
  "parseResponse resp endpointConfig =
     (case response_body resp of
        None \<Rightarrow> ([], Inr JNull)
      | Some b \<Rightarrow>
          if b = [] then ([], Inr JNull)
          else
            (case JSON_parse b of
               Inr v \<Rightarrow> ([], Inr v)
             | Inl e \<Rightarrow>
                 if \<not> catchable e then ([], Inl e)
                 else
                   (case endpointConfig of
                      None \<Rightarrow>
                        ([], Inl (TypeError ''Cannot read properties of undefined (reading path)''))
                    | Some ec \<Rightarrow>
                        ([ConsoleWarn (''Failed to parse response as JSON for endpoint '' @ path ec
                            @ '': '' @ message e)],
                         Inr JNull))))"

subsection \<open>\<^verbatim>\<open>validateResponseContent\<close>\<close>

text \<open>
  The loop over \<^verbatim>\<open>Object.entries(expectedContent)\<close>, with \<^verbatim>\<open>validationResults\<close> as
  accumulator. An exception of a validator leaves the loop and the function.
\<close>

fun validate_fields ::
  "host \<Rightarrow> json \<Rightarrow> (string \<times> field_descriptor) list \<Rightarrow> (string \<times> bool) list
     \<Rightarrow> event list \<times> (error + (string \<times> bool) list)" where
  "validate_fields h responseBody [] validationResults = ([], Inr validationResults)"
| "validate_fields h responseBody (fv # rest) validationResults =
     (case get_prop responseBody (fst fv) of
        Inl e \<Rightarrow> ([], Inl e)
      | Inr v \<Rightarrow>
          (case validators h (field_type (snd fv)) of
             None \<Rightarrow>
               after [ConsoleError (''Unknown validator type: '' @ field_type (snd fv))]
                 (validate_fields h responseBody rest
                    (AList.update (fst fv @ '' validation'') False validationResults))
           | Some check_value \<Rightarrow>
               (case check_value v (values_prop (snd fv)) of
                  Inl e \<Rightarrow> ([], Inl e)
                | Inr isValid \<Rightarrow>
                    after (if \<not> isValid
                           then [MetricAdd ''validation_failures'' (JNum 1)
                                   [(''field'', JStr (fst fv)), (''type'', JStr (field_type (snd fv)))]]
                           else [])
                      (validate_fields h responseBody rest
                         (AList.update (fst fv @ '' is valid'') isValid validationResults)))))"

definition validateResponseContent ::
  "host \<Rightarrow> response \<Rightarrow> (string \<times> field_descriptor) list
     \<Rightarrow> event list \<times> (error + (string \<times> bool) list)" where
  "validateResponseContent h resp expected =
     (case parseResponse resp None of
        (evs, Inl e) \<Rightarrow> (evs, Inl e)
      | (evs, Inr responseBody) \<Rightarrow>
          if \<not> truthy responseBody then (evs, Inr [(''response parsing'', False)])
          else after evs (validate_fields h responseBody expected []))"

subsection \<open>\<^verbatim>\<open>handleRequest\<close>\<close>

text \<open>Lines 181 to 200: the URL, the headers and the parameters of the call.\<close>

definition request_url :: "global_config \<Rightarrow> endpoint_config \<Rightarrow> string" where
  "request_url g ec = or_string (baseURL ec) (global_baseURL g) @ path ec"

definition request_headers :: "global_config \<Rightarrow> endpoint_config \<Rightarrow> (string \<times> string) list" where
  "request_headers g ec =
     (let merged = assign_all (assign_all [] (global_headers g)) (headers ec) in
      case body ec of
        None \<Rightarrow> merged
      | Some b \<Rightarrow>
          if body_type b = ''raw'' then
            AList.update ''Content-Type'' (or_string (contentType b) (json_type (contentTypes g))) merged
          else if body_type b = ''x-www-form-urlencoded'' then
            AList.update ''Content-Type'' (urlEncoded_type (contentTypes g)) merged
          else merged)"

definition request_params :: "global_config \<Rightarrow> string \<Rightarrow> endpoint_config \<Rightarrow> params" where
  "request_params g endpoint ec =
     \<lparr>params_headers = request_headers g ec,
      params_tags = assign_all [(''endpoint'', endpoint)] (tags ec)\<rparr>"

text \<open>
  \<^verbatim>\<open>endpointConfig.config?.responseTime\<close>, and
  \<^verbatim>\<open>endpointConfig.config?.responseTime || globalConfig.slowRequestThreshold\<close>.
\<close>

definition config_responseTime :: "endpoint_config \<Rightarrow> int option" where
  "config_responseTime ec = (case config ec of None \<Rightarrow> None | Some c \<Rightarrow> responseTime c)"

definition slow_limit :: "global_config \<Rightarrow> endpoint_config \<Rightarrow> int" where
  "slow_limit g ec = or_int (config_responseTime ec) (slowRequestThreshold g)"

definition isSlowRequest :: "global_config \<Rightarrow> endpoint_config \<Rightarrow> int \<Rightarrow> bool" where
  "isSlowRequest g ec d = (d > slow_limit g ec)"

text \<open>
  The \<^verbatim>\<open>forEach\<close> of the store step: \<^verbatim>\<open>storedData[key] = responseBody[path]\<close>. An
  assignment to \<^verbatim>\<open>__proto__\<close> creates no property but replaces the prototype, which the
  map cannot hold.
\<close>

fun store_fields ::
  "json \<Rightarrow> (string \<times> string) list \<Rightarrow> (string \<rightharpoonup> jsvalue)
     \<Rightarrow> (string \<rightharpoonup> jsvalue) \<times> error option" where
  "store_fields responseBody [] stored = (stored, None)"
| "store_fields responseBody (kp # rest) stored =
     (case get_prop responseBody (snd kp) of
        Inl e \<Rightarrow> (stored, Some e)
      | Inr v \<Rightarrow>
          if fst kp = ''__proto__'' then (stored, Some OutsideModel)
          else store_fields responseBody rest (stored(fst kp \<mapsto> v)))"

text \<open>
  Lines 243 to 254: the new \<^verbatim>\<open>storedData\<close>, the events, and an error only where the
  model cannot follow the run.
\<close>

definition store_step ::
  "string \<Rightarrow> endpoint_config \<Rightarrow> response \<Rightarrow> (string \<rightharpoonup> jsvalue)
     \<Rightarrow> (string \<rightharpoonup> jsvalue) \<times> event list \<times> error option" where
  "store_step endpoint ec resp stored =
     (case storeResponse ec of
        None \<Rightarrow> (stored, [], None)
      | Some mapping \<Rightarrow>
          (let failed = (\<lambda>e. ConsoleError (''Failed to store response data for '' @ endpoint
                                 @ '': '' @ message e)) in
           case parseResponse resp (Some ec) of
             (evs, Inl e) \<Rightarrow>
               if catchable e then (stored, evs @ [failed e], None) else (stored, evs, Some e)
           | (evs, Inr responseBody) \<Rightarrow>
               if truthy responseBody then
                 (case store_fields responseBody mapping stored of
                    (stored', Some e) \<Rightarrow>
                      if catchable e then (stored', evs @ [failed e], None) else (stored', evs, Some e)
                  | (stored', None) \<Rightarrow> (stored', evs, None))
               else (stored, evs, None)))"

text \<open>Lines 202 to 206: the body is prepared only when the endpoint declares one.\<close>

definition prepare_step ::
  "host \<Rightarrow> endpoint_config \<Rightarrow> (string \<rightharpoonup> jsvalue) \<Rightarrow> event list \<times> (error + request_body option)" where
  "prepare_step h ec stored =
     (case body ec of
        None \<Rightarrow> ([], Inr None)
      | Some b \<Rightarrow> prepareRequestBody h (Some b) stored)"

text \<open>Line 214: \<^verbatim>\<open>GET\<close> goes through \<^verbatim>\<open>http.get\<close>, without the body.\<close>

definition http_call_of ::
  "global_config \<Rightarrow> string \<Rightarrow> endpoint_config \<Rightarrow> request_body option \<Rightarrow> http_call" where
  "http_call_of g endpoint ec prepared =
     (if http_method ec = ''GET''
      then HttpGet (request_url g ec) (request_params g endpoint ec)
      else HttpRequest (http_method ec) (request_url g ec) prepared (request_params g endpoint ec))"

text \<open>
  \<^verbatim>\<open>handleRequest(endpoint, endpointConfig)\<close> on the module state. The second component
  of the result is the exception that leaves the function, if any.
\<close>

definition handleRequest ::
  "host \<Rightarrow> global_config \<Rightarrow> string \<Rightarrow> endpoint_config \<Rightarrow> state \<Rightarrow> state \<times> error option" where
  "handleRequest h g endpoint ec st =
     (let url = request_url g ec in
      case prepare_step h ec (storedData st) of
        (evs, Inl e) \<Rightarrow>
          if catchable e then
            (st\<lparr>trace := trace st @ evs
                   @ [ConsoleError (''Failed to prepare request body for '' @ endpoint @ '': '' @ message e),
                      MetricAdd ''failed_requests'' (JNum 1) []]\<rparr>,
             None)
          else (st\<lparr>trace := trace st @ evs\<rparr>, Some e)
      | (evs, Inr prepared) \<Rightarrow>
          (let call = http_call_of g endpoint ec prepared;
               x = http h call;
               resp = received x;
               d = elapsed x;
               slow = isSlowRequest g ec d;
               evs1 = evs @ [Http call,
                        MetricAdd ''response_time'' (JNum d) [(''endpoint'', JStr endpoint)],
                        MetricAdd ''slow_requests'' (JBool slow) []]
                      @ (if slow
                         then [MetricAdd ''slow_request_details'' (JNum d)
                                 [(''endpoint'', JStr endpoint), (''method'', JStr (http_method ec)),
                                  (''url'', JStr url), (''statusCode'', JNum (status resp)),
                                  (''timestamp'', JStr (startTime x))]]
                         else []);
               slows = (if slow
                        then slowRequests st @
                          [\<lparr>slow_endpoint = endpoint, slow_duration = d, slow_timestamp = startTime x,
                            slow_method = http_method ec, slow_url = url, slow_status = status resp,
                            slow_threshold = slow_limit g ec\<rparr>]
                        else slowRequests st)
           in
           case store_step endpoint ec resp (storedData st) of
             (stored, evs2, Some e) \<Rightarrow>
               (\<lparr>storedData = stored, slowRequests = slows, trace = trace st @ evs1 @ evs2\<rparr>, Some e)
           | (stored, evs2, None) \<Rightarrow>
               (let checks = [(''status is as expected'', status resp = or_int (expectedStatus ec) 200),
                              (''response time is within limits'', \<not> slow)]
                in
                case (case expectedContent ec of
                        None \<Rightarrow> ([], Inr [])
                      | Some expected \<Rightarrow> validateResponseContent h resp expected) of
                  (evs3, Inl e) \<Rightarrow>
                    (\<lparr>storedData = stored, slowRequests = slows,
                      trace = trace st @ evs1 @ evs2 @ evs3\<rparr>, Some e)
                | (evs3, Inr results) \<Rightarrow>
                    (let checks' = assign_all checks results in
                     (\<lparr>storedData = stored, slowRequests = slows,
                       trace = trace st @ evs1 @ evs2 @ evs3
                         @ [Check checks',
                            MetricAdd ''failed_requests'' (JBool (\<not> list_all snd checks')) [],
                            Sleep 1]\<rparr>,
                      None)))))"

subsection \<open>\<^verbatim>\<open>buildOptions\<close> and the default function\<close>






text \<open>
  The exported default function, with \<^verbatim>\<open>__ENV.SCENARIO\<close> as argument. A name that the
  registry only inherits is truthy: the function goes on with a member of
  \<^verbatim>\<open>Object.prototype\<close> as endpoint, which is no endpoint descriptor (\<open>OutsideModel\<close>).
\<close>

definition default_function ::
  "host \<Rightarrow> global_config \<Rightarrow> (string \<times> endpoint_config) list \<Rightarrow> string option \<Rightarrow> state
     \<Rightarrow> state \<times> error option" where
  "default_function h g endpoints scenarioEndpoint st =
     (let invalid = (\<lambda>name. (st\<lparr>trace := trace st @ [ConsoleError (''Invalid endpoint: '' @ name)]\<rparr>,
                              None))
      in case scenarioEndpoint of
           None \<Rightarrow> invalid ''undefined''
         | Some name \<Rightarrow>
             if name = [] then invalid name
             else (case map_of endpoints name of
                     None \<Rightarrow>
                       if name \<in> set object_prototype_names then (st, Some OutsideModel)
                       else invalid name
                   | Some ec \<Rightarrow> handleRequest h g name ec st))"

subsection \<open>\<^verbatim>\<open>config.js\<close> and \<^verbatim>\<open>endpoints.js\<close>\<close>

definition globalConfig :: global_config where
  "globalConfig =
     \<lparr>global_baseURL = ''https://uat.openfinance.adcb.com'',
      global_headers = [(''Accept'', ''application/json'')],
      defaultTestConfig =
        \<lparr>default_vus = 1, default_duration = ''30s'', default_responseTime = 1000,
         default_thresholds = [(''http_req_failed'', [''rate<0.01'']),
                               (''http_req_duration'', [''p(95)<1000''])]\<rparr>,
      slowRequestThreshold = 1000,
      contentTypes =
        \<lparr>json_type = ''application/json'', formData_type = ''multipart/form-data'',
         urlEncoded_type = ''application/x-www-form-urlencoded'', text_type = ''text/plain''\<rparr>\<rparr>"

definition no_options :: field_descriptor where
  "no_options =
     \<lparr>field_type = [], values_prop = None, pattern_prop = None, validator_prop = None,
      minLength = None, maxLength = None, min_value = None, max_value = None\<rparr>"

text \<open>The registry of \<^verbatim>\<open>endpoints.js\<close>; the argument is \<^verbatim>\<open>__ENV.AUTH_TOKEN\<close> as a string.\<close>

definition endpoints :: "string \<Rightarrow> (string \<times> endpoint_config) list" where
  "endpoints auth_token =
     [(''getToken'',
       \<lparr>baseURL = Some ''https://test.api.auth.adcb.com'',
        path = ''/oauth2/token'',
        http_method = ''POST'',
        tags = [(''0'', ''token''), (''1'', ''auth'')],
        config = Some \<lparr>vus = Some 2, duration = Some ''1m'', responseTime = None,
                       thresholds = None, target = Some 50\<rparr>,
        headers = [(''Authorization'', ''Basic '' @ auth_token)],
        body = Some \<lparr>body_type = ''x-www-form-urlencoded'',
                     content = JObj [(''grant_type'', JStr ''client_credentials'')],
                     contentType = None\<rparr>,
        expectedStatus = Some 200,
        expectedContent = Some
          [(''access_token'', no_options\<lparr>field_type := ''text''\<rparr>),
           (''expires_in'', no_options\<lparr>field_type := ''number''\<rparr>),
           (''token_type'', no_options\<lparr>field_type := ''enum'',
              values_prop := Some (OData (JArr [JStr ''Basic'', JStr ''Bearer'', JStr ''JWT'']))\<rparr>)],
        storeResponse = Some [(''accessToken'', ''access_token'')]\<rparr>)]"

section \<open>Reference notions and sample inputs\<close>

text \<open>
  JSON-serializable content as the model holds it: every object has each key once, as a
  JavaScript object does.
\<close>

fun distinct_keys :: "json \<Rightarrow> bool"
  and distinct_keys_elements :: "json list \<Rightarrow> bool"
  and distinct_keys_members :: "(string \<times> json) list \<Rightarrow> bool"
where
  "distinct_keys (JArr xs) = distinct_keys_elements xs"
| "distinct_keys (JObj kvs) = (distinct (map fst kvs) \<and> distinct_keys_members kvs)"
| "distinct_keys JNull = True"
| "distinct_keys (JBool b) = True"
| "distinct_keys (JNum n) = True"
| "distinct_keys (JStr s) = True"
| "distinct_keys_elements [] = True"
| "distinct_keys_elements (x # xs) = (distinct_keys x \<and> distinct_keys_elements xs)"
| "distinct_keys_members [] = True"
| "distinct_keys_members (kv # kvs) = (distinct_keys (snd kv) \<and> distinct_keys_members kvs)"

text \<open>
  What may follow a number in a JSON text: the end of the text, or a character that
  extends neither its digits nor the number.
\<close>

definition number_end :: "string \<Rightarrow> bool" where
  "number_end rest =
     (rest = [] \<or> (\<not> is_digit (hd rest) \<and> hd rest \<noteq> CHR ''.'' \<and> hd rest \<noteq> CHR ''e''
                    \<and> hd rest \<noteq> CHR ''E''))"

text \<open>A text without a match of the placeholder pattern.\<close>

definition no_placeholder :: "string \<Rightarrow> bool" where
  "no_placeholder s = (placeholder_keys s = [])"

text \<open>The strings of a content structure: its string values and its object keys.\<close>

fun strings_of :: "json \<Rightarrow> string list"
  and strings_of_elements :: "json list \<Rightarrow> string list"
  and strings_of_members :: "(string \<times> json) list \<Rightarrow> string list"
where
  "strings_of (JStr s) = [s]"
| "strings_of (JArr xs) = strings_of_elements xs"
| "strings_of (JObj kvs) = strings_of_members kvs"
| "strings_of JNull = []"
| "strings_of (JBool b) = []"
| "strings_of (JNum n) = []"
| "strings_of_elements [] = []"
| "strings_of_elements (x # xs) = strings_of x @ strings_of_elements xs"
| "strings_of_members [] = []"
| "strings_of_members (kv # kvs) = fst kv # strings_of (snd kv) @ strings_of_members kvs"

text \<open>
  The opening of a placeholder, the text of the placeholder with a given key, and a content
  structure one of whose strings contains that placeholder.
\<close>

definition opener :: string where
  "opener = ''${stored.''"



text \<open>The characters of a string as \<^verbatim>\<open>JSON.stringify\<close> writes them between the quotes.\<close>

abbreviation escaped :: "string \<Rightarrow> string" where
  "escaped s \<equiv> concat (map escape_char s)"

text \<open>
  The threshold in the words of the specification (4.4, step 3): the endpoint's configured
  response-time threshold, and the global slow-request threshold when the endpoint
  declares none.
\<close>

definition spec_threshold :: "global_config \<Rightarrow> endpoint_config \<Rightarrow> int" where
  "spec_threshold g ec =
     (case config_responseTime ec of None \<Rightarrow> slowRequestThreshold g | Some t \<Rightarrow> t)"

text \<open>An endpoint without body, headers or checks.\<close>

definition plain_endpoint :: "string \<Rightarrow> endpoint_config" where
  "plain_endpoint p =
     \<lparr>baseURL = None, path = p, http_method = ''GET'', tags = [], config = None, headers = [],
      body = None, expectedStatus = None, expectedContent = None, storeResponse = None\<rparr>"

text \<open>An endpoint that declares a response-time threshold of 0 milliseconds.\<close>

definition zero_threshold_endpoint :: endpoint_config where
  "zero_threshold_endpoint =
     (plain_endpoint ''/health'')\<lparr>config := Some \<lparr>vus = None, duration = None,
        responseTime = Some 0, thresholds = None, target = None\<rparr>\<rparr>"

text \<open>
  The endpoint of the commented block of \<^verbatim>\<open>endpoints.js\<close>, with the first two of its
  headers: its \<^verbatim>\<open>Authorization\<close> header is a placeholder.
\<close>

definition getAccountConsents :: endpoint_config where
  "getAccountConsents =
     \<lparr>baseURL = None,
      path = ''/accounts/d0ad73f0-1454-4916-8904-7ca824b5a4be/consents'',
      http_method = ''GET'',
      tags = [(''0'', ''accounts''), (''1'', ''consents'')],
      config = Some \<lparr>vus = Some 10, duration = Some ''30s'', responseTime = None,
                     thresholds = None, target = Some 100\<rparr>,
      headers = [(''Authorization'', ''${stored.accessToken}''), (''o3-consent-id'', ''MQ=='')],
      body = None,
      expectedStatus = Some 200,
      expectedContent = Some [(''id'', no_options\<lparr>field_type := ''uuid''\<rparr>)],
      storeResponse = None\<rparr>"

text \<open>An endpoint whose raw body refers to a stored value.\<close>

definition token_body :: body_config where
  "token_body =
     \<lparr>body_type = ''raw'',
      content = JObj [(''Authorization'', JStr ''${stored.token}''), (''retries'', JNum 3)],
      contentType = None\<rparr>"

definition submit_endpoint :: endpoint_config where
  "submit_endpoint = (plain_endpoint ''/submit'')\<lparr>http_method := ''POST'', body := Some token_body\<rparr>"

text \<open>A content structure without any placeholder.\<close>

definition plain_content :: json where
  "plain_content =
     JObj [(''grant_type'', JStr ''client_credentials''), (''retries'', JNum 3),
           (''offset'', JNum (- 12)), (''active'', JBool True), (''scope'', JNull),
           (''list'', JArr [JNum 0, JStr [DQ, BSL, CHR 0x0A, CHR 0x01]])]"

text \<open>
  A content structure none of whose strings contains a placeholder: its one string value
  ends with the opening of one.
\<close>

definition dangling_content :: json where
  "dangling_content = JObj [(''note'', JStr ''see ${stored.'')]"





text \<open>A response whose body is the text \<^verbatim>\<open><html>\<close>, and one whose body is empty.\<close>

definition html_response :: response where
  "html_response = \<lparr>response_body = Some ''<html>'', status = 200\<rparr>"

definition empty_response :: response where
  "empty_response = \<lparr>response_body = Some [], status = 200\<rparr>"

text \<open>
  A response with the body \<^verbatim>\<open>{"name":"a","age":500}\<close>, and the two bounded fields of the
  complete example of \<^verbatim>\<open>endpoints.js\<close>.
\<close>

definition profile_response :: response where
  "profile_response =
     \<lparr>response_body = Some (''{'' @ [DQ] @ ''name'' @ [DQ] @ '':'' @ [DQ] @ ''a'' @ [DQ] @ '',''
                              @ [DQ] @ ''age'' @ [DQ] @ '':500}''),
      status = 200\<rparr>"

definition profile_schema :: "(string \<times> field_descriptor) list" where
  "profile_schema =
     [(''name'', no_options\<lparr>field_type := ''text'', minLength := Some 2, maxLength := Some 50\<rparr>),
      (''age'', no_options\<lparr>field_type := ''number'', min_value := Some 18, max_value := Some 120\<rparr>)]"

text \<open>
  A field declared as the \<^verbatim>\<open>regex\<close> example of \<^verbatim>\<open>endpoints.js\<close> is, with the option
  under \<^verbatim>\<open>pattern\<close>.
\<close>

definition code_field :: field_descriptor where
  "code_field = no_options\<lparr>field_type := ''regex'', pattern_prop := Some (OData (JStr ''^CODE_''))\<rparr>"

text \<open>
  A schema with that field and an \<^verbatim>\<open>enum\<close> field, and a response with the body
  \<^verbatim>\<open>{"code":"X1","status":"archived"}\<close>.
\<close>

definition status_field :: field_descriptor where
  "status_field =
     no_options\<lparr>field_type := ''enum'',
                values_prop := Some (OData (JArr [JStr ''active'', JStr ''inactive'']))\<rparr>"

definition status_schema :: "(string \<times> field_descriptor) list" where
  "status_schema = [(''code'', code_field), (''status'', status_field)]"

definition status_text :: string where
  "status_text = ''{'' @ [DQ] @ ''code'' @ [DQ] @ '':'' @ [DQ] @ ''X1'' @ [DQ] @ '',''
                   @ [DQ] @ ''status'' @ [DQ] @ '':'' @ [DQ] @ ''archived'' @ [DQ] @ ''}''"

definition status_response :: response where
  "status_response = \<lparr>response_body = Some status_text, status = 200\<rparr>"


text \<open>A host whose server answers every call with status 200 and an empty object.\<close>

definition sample_host :: host where
  "sample_host =
     \<lparr>regexp_valid = (\<lambda>src. True),
      regexp_test = (\<lambda>src icase subject. False),
      date_parse_nan = (\<lambda>s. True),
      url_valid = (\<lambda>s. False),
      encodeURIComponent = (\<lambda>s. s),
      open_file = (\<lambda>p. Inl (HostError ''open'')),
      http = (\<lambda>call. \<lparr>received = \<lparr>response_body = Some ''{}'', status = 200\<rparr>,
                          startTime = ''2024-01-22T10:00:00.000Z'', elapsed = 250\<rparr>),
      inherited_call = (\<lambda>name value opts. Inl (TypeError ''not a function''))\<rparr>"

definition initial_state :: state where
  "initial_state = \<lparr>storedData = Map.empty, slowRequests = [], trace = []\<rparr>"

text \<open>The state after a token has been stored.\<close>

definition token_state :: state where
  "token_state =
     \<lparr>storedData = [''accessToken'' \<mapsto> Val (JStr ''abc123'')], slowRequests = [], trace = []\<rparr>"

section \<open>Properties\<close>

subsection \<open>The parser always consumes input\<close>

lemma parse_number_shorter: "parse_number s = Inr (v, r) \<Longrightarrow> length r < length s"
proof -
  assume a: "parse_number s = Inr (v, r)"
  define s1 where "s1 = (if s \<noteq> [] \<and> hd s = CHR ''-'' then tl s else s)"
  have l: "length s1 \<le> length s" by (simp add: s1_def)
  from a have r: "r = dropWhile is_digit s1" and ne: "takeWhile is_digit s1 \<noteq> []"
    by (auto simp: parse_number_def Let_def s1_def split: if_splits)
  have "length (takeWhile is_digit s1) + length (dropWhile is_digit s1) = length s1"
    by (metis length_append takeWhile_dropWhile_id)
  with ne have "length (dropWhile is_digit s1) < length s1" 
    by (cases "takeWhile is_digit s1") auto
  with l r show ?thesis by simp
qed

lemma parse_literal_shorter: "parse_literal s = Inr (v, r) \<Longrightarrow> length r < length s"
  by (cases s) (auto simp: parse_literal_def split: if_splits)

lemma skip_ws_length: "skip_ws s = c # r \<Longrightarrow> Suc (length r) \<le> length s"
  using length_skip_ws [of s] by simp

lemma parse_value_shorter:
  "parse_value s = Inr (v, r) \<Longrightarrow> length r < length s"
  "parse_elements s = Inr (vs, r) \<Longrightarrow> length r < length s"
  "parse_members s = Inr (kvs, r) \<Longrightarrow> length r < length s"
proof (induction s and s and s arbitrary: v r and vs r and kvs r
    rule: parse_value_parse_elements_parse_members.induct)
  case (1 s)
  from 1(3) obtain c t where ct: "skip_ws s = c # t"
    by (subst (asm) parse_value.simps) (auto split: list.splits)
  note l = skip_ws_length [OF ct]
  show ?case
  proof (cases "c = CHR ''[''")
    case True
    from 1(3) True ct obtain c' t' where ct': "skip_ws t = c' # t'"
      by (subst (asm) parse_value.simps) (auto split: list.splits)
    note l' = skip_ws_length [OF ct']
    show ?thesis
    proof (cases "c' = CHR '']''")
      case True
      with 1(3) \<open>c = CHR ''[''\<close> ct ct' have "r = t'"
        by (subst (asm) parse_value.simps) simp
      with l l' show ?thesis by simp
    next
      case False
      with 1(3) \<open>c = CHR ''[''\<close> ct ct' obtain vs where "parse_elements t = Inr (vs, r)"
        by (subst (asm) parse_value.simps) (auto split: sum.splits)
      from 1(1) [OF ct \<open>c = CHR ''[''\<close> ct' False this] l show ?thesis by simp
    qed
  next
    case nb: False
    show ?thesis
    proof (cases "c = CHR ''{''")
      case True
      from 1(3) True ct obtain c' t' where ct': "skip_ws t = c' # t'"
        by (subst (asm) parse_value.simps) (auto split: list.splits)
      note l' = skip_ws_length [OF ct']
      show ?thesis
      proof (cases "c' = CHR ''}''")
        case True
        with 1(3) \<open>c = CHR ''{''\<close> ct ct' have "r = t'"
          by (subst (asm) parse_value.simps) simp
        with l l' show ?thesis by simp
      next
        case False
        with 1(3) \<open>c = CHR ''{''\<close> ct ct' obtain kvs where "parse_members t = Inr (kvs, r)"
          by (subst (asm) parse_value.simps) (auto split: sum.splits)
        from 1(2) [OF ct nb \<open>c = CHR ''{''\<close> ct' False this] l show ?thesis by simp
      qed
    next
      case False
      with 1(3) nb ct have "(\<exists>str. parse_string t = Inr (str, r)) \<or> parse_number (c # t) = Inr (v, r)
          \<or> parse_literal (c # t) = Inr (v, r)"
        by (subst (asm) parse_value.simps) (auto split: sum.splits if_splits)
      then show ?thesis
        using l by (auto dest!: parse_string_shorter parse_number_shorter parse_literal_shorter)
    qed
  qed
next
  case (2 s)
  from 2(3) obtain v t where vt: "parse_value s = Inr (v, t)"
    by (subst (asm) parse_elements.simps) (auto split: sum.splits)
  note l = 2(1) [OF vt]
  from 2(3) vt obtain c t' where ct: "skip_ws t = c # t'"
    by (subst (asm) parse_elements.simps) (auto split: list.splits)
  note l' = skip_ws_length [OF ct]
  show ?case
  proof (cases "c = CHR '',''")
    case True
    with 2(3) vt ct obtain vs' where g: "length t' < length s" and "parse_elements t' = Inr (vs', r)"
      by (subst (asm) parse_elements.simps) (auto split: sum.splits if_splits)
    from 2(2) [OF vt refl ct True g this(2)] g show ?thesis by simp
  next
    case False
    with 2(3) vt ct have "r = t'"
      by (subst (asm) parse_elements.simps) (auto split: if_splits)
    with l l' show ?thesis by simp
  qed
next
  case (3 s)
  from 3(3) obtain c t where ct: "skip_ws s = c # t"
    by (subst (asm) parse_members.simps) (auto split: list.splits)
  note l = skip_ws_length [OF ct]
  from 3(3) ct have c: "c = DQ"
    by (subst (asm) parse_members.simps) (auto split: if_splits)
  from 3(3) ct c obtain k t1 where kt: "parse_string t = Inr (k, t1)"
    by (subst (asm) parse_members.simps) (auto split: sum.splits)
  note l1 = parse_string_shorter [OF kt]
  from 3(3) ct c kt obtain c1 t2 where ct1: "skip_ws t1 = c1 # t2"
    by (subst (asm) parse_members.simps) (auto split: list.splits)
  note l2 = skip_ws_length [OF ct1]
  from 3(3) ct c kt ct1 have c1: "c1 = CHR '':''"
    by (subst (asm) parse_members.simps) (auto split: if_splits)
  from 3(3) ct c kt ct1 c1 obtain v t3 where vt: "parse_value t2 = Inr (v, t3)"
    by (subst (asm) parse_members.simps) (auto split: sum.splits)
  note l3 = 3(1) [OF ct c kt refl ct1 c1 vt]
  from 3(3) ct c kt ct1 c1 vt obtain c3 t4 where ct3: "skip_ws t3 = c3 # t4"
    by (subst (asm) parse_members.simps) (auto split: list.splits)
  note l4 = skip_ws_length [OF ct3]
  show ?case
  proof (cases "c3 = CHR '',''")
    case True
    with 3(3) ct c kt ct1 c1 vt ct3 obtain kvs' where g: "length t4 < length s"
      and "parse_members t4 = Inr (kvs', r)"
      by (subst (asm) parse_members.simps) (auto split: sum.splits if_splits)
    from 3(2) [OF ct c kt refl ct1 c1 vt refl ct3 True g this(2)] g show ?thesis by simp
  next
    case False
    with 3(3) ct c kt ct1 c1 vt ct3 have "r = t4"
      by (subst (asm) parse_members.simps) (auto split: if_splits)
    with l l1 l2 l3 l4 show ?thesis by simp
  qed
qed

subsection \<open>Parsing what \<^verbatim>\<open>JSON.stringify\<close> writes\<close>

lemma of_char_digit_char: "d < 10 \<Longrightarrow> (of_char (digit_char d) :: nat) = 48 + d"
  by (simp add: digit_char_def)

lemma is_digit_digit_char: "d < 10 \<Longrightarrow> is_digit (digit_char d)"
  by (simp add: is_digit_def of_char_digit_char)

lemma digit_val_digit_char: "d < 10 \<Longrightarrow> digit_val (digit_char d) = d"
  by (simp add: digit_val_def of_char_digit_char)

lemma digit_char_zero: "d < 10 \<Longrightarrow> (digit_char d = CHR ''0'') = (d = 0)"
proof -
  assume d: "d < 10"
  have "(digit_char d = CHR ''0'') = ((of_char (digit_char d) :: nat) = of_char (CHR ''0''))"
    by (simp only: of_char_eq_iff)
  also have "\<dots> = (d = 0)" using d by (simp add: of_char_digit_char)
  finally show ?thesis .
qed

lemma show_nat_digits: "list_all is_digit (show_nat n)"
proof (induction n rule: show_nat.induct)
  case (1 n)
  show ?case
  proof (cases "n < 10")
    case True
    then show ?thesis by (simp add: show_nat.simps [of n] is_digit_digit_char)
  next
    case False
    with 1 show ?thesis by (simp add: show_nat.simps [of n] is_digit_digit_char)
  qed
qed

lemma show_nat_nonempty: "show_nat n \<noteq> []"
  by (subst show_nat.simps) simp

lemma read_nat_snoc: "read_nat (ds @ [c]) = 10 * read_nat ds + digit_val c"
  by (simp add: read_nat_def)

lemma read_show_nat: "read_nat (show_nat n) = n"
proof (induction n rule: show_nat.induct)
  case (1 n)
  show ?case
  proof (cases "n < 10")
    case True
    then show ?thesis by (simp add: show_nat.simps [of n] read_nat_def digit_val_digit_char)
  next
    case False
    with 1 show ?thesis
      by (simp add: show_nat.simps [of n] read_nat_snoc digit_val_digit_char)
  qed
qed

lemma show_nat_leading_zero: "hd (show_nat n) = CHR ''0'' \<Longrightarrow> n = 0"
proof (induction n rule: show_nat.induct)
  case (1 n)
  show ?case
  proof (cases "n < 10")
    case True
    with 1(2) show ?thesis by (simp add: show_nat.simps [of n] digit_char_zero)
  next
    case False
    with 1(2) have "hd (show_nat (n div 10)) = CHR ''0''"
      by (simp add: show_nat.simps [of n] show_nat_nonempty)
    with 1(1) False have "n div 10 = 0" by simp
    with False show ?thesis by simp
  qed
qed

lemma show_nat_zero: "show_nat 0 = ''0''"
  by code_simp

lemma show_nat_length_zero: "hd (show_nat n) = CHR ''0'' \<Longrightarrow> length (show_nat n) = 1"
  using show_nat_leading_zero [of n] by (auto simp: show_nat_zero)

lemma takeWhile_digits: "list_all is_digit ds \<Longrightarrow> number_end rest \<Longrightarrow> takeWhile is_digit (ds @ rest) = ds"
  by (cases rest) (auto simp: number_end_def list_all_iff takeWhile_append2 intro!: takeWhile_eq_all_conv [THEN iffD2])

lemma dropWhile_digits: "list_all is_digit ds \<Longrightarrow> number_end rest \<Longrightarrow> dropWhile is_digit (ds @ rest) = rest"
  by (cases rest) (auto simp: number_end_def list_all_iff dropWhile_append2)

lemma show_nat_hd_digit: "is_digit (hd (show_nat n))"
  using show_nat_digits [of n] show_nat_nonempty [of n] by (cases "show_nat n") auto

lemma minus_not_digit: "\<not> is_digit (CHR ''-'')"
  by (simp add: is_digit_def)

lemma parse_number_show_nat:
  assumes "number_end rest"
  shows "parse_number (show_nat n @ rest) = Inr (JNum (int n), rest)"
proof -
  have hd: "hd (show_nat n @ rest) \<noteq> CHR ''-''"
    using show_nat_hd_digit [of n] minus_not_digit show_nat_nonempty [of n] by (auto simp: hd_append)
  have z: "\<not> (hd (show_nat n) = CHR ''0'' \<and> 1 < length (show_nat n))"
    using show_nat_length_zero [of n] by auto
  from assms have r: "\<not> (rest \<noteq> [] \<and> (hd rest = CHR ''.'' \<or> hd rest = CHR ''e'' \<or> hd rest = CHR ''E''))"
    by (auto simp: number_end_def)
  show ?thesis
    using hd z r
    by (simp add: parse_number_def Let_def takeWhile_digits [OF show_nat_digits assms]
        dropWhile_digits [OF show_nat_digits assms] show_nat_nonempty read_show_nat)
qed

lemma parse_number_show_int:
  assumes "number_end rest"
  shows "parse_number (show_int i @ rest) = Inr (JNum i, rest)"
proof (cases "i < 0")
  case False
  then show ?thesis using parse_number_show_nat [OF assms, of "nat i"] by (simp add: show_int_def)
next
  case True
  have z: "\<not> (hd (show_nat (nat (- i))) = CHR ''0'' \<and> 1 < length (show_nat (nat (- i))))"
    using show_nat_length_zero [of "nat (- i)"] by auto
  from assms have r: "\<not> (rest \<noteq> [] \<and> (hd rest = CHR ''.'' \<or> hd rest = CHR ''e'' \<or> hd rest = CHR ''E''))"
    by (auto simp: number_end_def)
  show ?thesis
    using True z r
    by (simp add: show_int_def parse_number_def Let_def takeWhile_digits [OF show_nat_digits assms]
        dropWhile_digits [OF show_nat_digits assms] show_nat_nonempty read_show_nat)
qed


lemma hex_val_hex_digit: "d < 16 \<Longrightarrow> hex_val (hex_digit d) = Some d"
  by (auto simp: hex_val_def hex_digit_def Let_def)

lemma hex4_escape: "n < 32 \<Longrightarrow> hex4 (CHR ''0'') (CHR ''0'') (hex_digit (n div 16)) (hex_digit (n mod 16)) = Some n"
proof -
  assume n: "n < 32"
  have z: "hex_val (CHR ''0'') = Some 0" by (simp add: hex_val_def)
  from n have "n div 16 < 16" by simp
  then show ?thesis
    by (simp add: hex4_def z hex_val_hex_digit)
qed

lemma parse_string_escape_char:
  "parse_string (escape_char c @ t) = cons_char c (parse_string t)"
proof (cases "c = DQ \<or> c = BSL \<or> c = CHR 0x08 \<or> c = CHR 0x0C \<or> c = CHR 0x0A \<or> c = CHR 0x0D \<or> c = CHR 0x09")
  case True
  then show ?thesis by (auto simp: escape_char_def unescape_def)
next
  case False
  note plain = this
  show ?thesis
  proof (cases "(of_char c :: nat) < 32")
    case True
    with plain have e: "escape_char c = [BSL, CHR ''u'', CHR ''0'', CHR ''0'',
         hex_digit ((of_char c :: nat) div 16), hex_digit ((of_char c :: nat) mod 16)]"
      by (simp add: escape_char_def)
    from True have "(of_char c :: nat) < 256" by simp
    with True show ?thesis
      by (simp add: e hex4_escape)
  next
    case False
    with plain show ?thesis by (simp add: escape_char_def)
  qed
qed

lemma parse_string_quote:
  "parse_string (concat (map escape_char s) @ DQ # rest) = Inr (s, rest)"
  by (induction s) (simp_all add: parse_string_escape_char cons_char_def)


lemma skip_ws_not_ws: "s \<noteq> [] \<Longrightarrow> \<not> is_ws (hd s) \<Longrightarrow> skip_ws s = s"
  by (cases s) (simp_all add: skip_ws_def)

lemma case_list_hd: "s \<noteq> [] \<Longrightarrow> (case s of [] \<Rightarrow> a | c # r \<Rightarrow> f c r) = f (hd s) (tl s)"
  by (cases s) simp_all

lemma digit_not_special:
  "is_digit c \<Longrightarrow> \<not> is_ws c \<and> c \<noteq> CHR ''['' \<and> c \<noteq> CHR '']'' \<and> c \<noteq> CHR ''{'' \<and> c \<noteq> CHR ''}''
     \<and> c \<noteq> DQ \<and> c \<noteq> CHR '','' \<and> c \<noteq> CHR ''-''"
  by (auto simp: is_digit_def is_ws_def)

lemma show_int_nonempty: "show_int i \<noteq> []"
  by (simp add: show_int_def show_nat_nonempty)

lemma show_int_hd: "hd (show_int i) = CHR ''-'' \<or> is_digit (hd (show_int i))"
  by (simp add: show_int_def show_nat_hd_digit)

lemma stringify_nonempty: "JSON_stringify v \<noteq> []"
  by (cases v) (simp_all add: show_int_nonempty quote_def)

lemma stringify_hd:
  "\<not> is_ws (hd (JSON_stringify v)) \<and> hd (JSON_stringify v) \<noteq> CHR '']''
   \<and> hd (JSON_stringify v) \<noteq> CHR ''}'' \<and> hd (JSON_stringify v) \<noteq> CHR '',''"
proof (cases v)
  case (JNum i)
  then show ?thesis using show_int_hd [of i] digit_not_special [of "hd (show_int i)"]
    by (auto simp: is_ws_def)
qed (simp_all add: is_ws_def quote_def)

lemma parse_value_number:
  assumes "number_end rest"
  shows "parse_value (show_int i @ rest) = Inr (JNum i, rest)"
proof -
  let ?s = "show_int i @ rest"
  have ne: "?s \<noteq> []" by (simp add: show_int_nonempty)
  have h: "hd ?s = hd (show_int i)" by (simp add: show_int_nonempty)
  have d: "hd ?s = CHR ''-'' \<or> is_digit (hd ?s)" using show_int_hd [of i] by (simp add: h)
  then have nws: "\<not> is_ws (hd ?s)" using digit_not_special [of "hd ?s"] by (auto simp: is_ws_def)
  from d have b: "hd ?s \<noteq> CHR ''['' \<and> hd ?s \<noteq> CHR ''{'' \<and> hd ?s \<noteq> DQ"
    using digit_not_special [of "hd ?s"] by auto
  have c: "hd ?s # tl ?s = ?s" using ne by simp
  show ?thesis
    apply (subst parse_value.simps)
    apply (simp only: skip_ws_not_ws [OF ne nws] case_list_hd [OF ne])
    using b d c parse_number_show_int [OF assms, of i]
    apply simp
    done
qed

lemma parse_value_string: "parse_value (quote s @ rest) = Inr (JStr s, rest)"
  by (subst parse_value.simps)
    (simp add: quote_def skip_ws_def is_ws_def parse_string_quote)

lemma parse_value_literals:
  "parse_value (''null'' @ rest) = Inr (JNull, rest)"
  "parse_value (''true'' @ rest) = Inr (JBool True, rest)"
  "parse_value (''false'' @ rest) = Inr (JBool False, rest)"
  by (subst parse_value.simps, simp add: skip_ws_def is_ws_def is_digit_def parse_literal_def)+

lemma update_fresh: "k \<notin> fst ` set al \<Longrightarrow> AList.update k v al = al @ [(k, v)]"
  by (induction al) auto

lemma assign_all_distinct:
  "distinct (map fst (acc @ kvs)) \<Longrightarrow> assign_all acc kvs = acc @ kvs"
proof (induction kvs arbitrary: acc)
  case Nil
  then show ?case by (simp add: assign_all_def)
next
  case (Cons kv kvs)
  have u: "AList.update (fst kv) (snd kv) acc = acc @ [kv]"
    using Cons.prems by (simp add: update_fresh)
  have "assign_all (acc @ [kv]) kvs = (acc @ [kv]) @ kvs"
    using Cons.prems by (intro Cons.IH) simp
  then show ?case by (simp add: assign_all_def u)
qed

lemma number_end_simps [simp]:
  "number_end []" "number_end (CHR '','' # t)" "number_end (CHR '']'' # t)" "number_end (CHR ''}'' # t)"
  by (simp_all add: number_end_def is_digit_def)

lemma parse_roundtrip:
  "distinct_keys v \<Longrightarrow> number_end rest \<Longrightarrow> parse_value (JSON_stringify v @ rest) = Inr (v, rest)"
  "xs \<noteq> [] \<Longrightarrow> distinct_keys_elements xs \<Longrightarrow>
     parse_elements (stringify_elements xs @ CHR '']'' # rest') = Inr (xs, rest')"
  "kvs \<noteq> [] \<Longrightarrow> distinct_keys_members kvs \<Longrightarrow>
     parse_members (stringify_members kvs @ CHR ''}'' # rest'') = Inr (kvs, rest'')"
proof (induction v and xs and kvs arbitrary: rest and rest' and rest''
    rule: JSON_stringify_stringify_elements_stringify_members.induct)
  case 1
  then show ?case by (simp add: parse_value_literals [simplified])
next
  case (2 b)
  then show ?case by (simp add: parse_value_literals [simplified])
next
  case (3 n)
  then show ?case by (simp add: parse_value_number)
next
  case (4 s)
  then show ?case by (simp add: parse_value_string)
next
  case (5 xs)
  show ?case
  proof (cases "xs = []")
    case True
    then show ?thesis
      by (subst parse_value.simps) (simp add: skip_ws_def is_ws_def)
  next
    case False
    let ?r = "stringify_elements xs @ CHR '']'' # rest"
    from False obtain x xs' where xs: "xs = x # xs'" by (cases xs) auto
    have ne: "?r \<noteq> []" by simp
    have h: "hd ?r = hd (JSON_stringify x)" by (simp add: xs stringify_nonempty)
    have nws: "\<not> is_ws (hd ?r)" and nb: "hd ?r \<noteq> CHR '']''"
      using stringify_hd [of x] by (simp_all add: h)
    have e: "parse_elements ?r = Inr (xs, rest)"
      using 5 False by simp
    show ?thesis
      apply (subst parse_value.simps)
      apply (simp add: skip_ws_def is_ws_def)
      apply (fold skip_ws_def)
      apply (simp only: skip_ws_not_ws [OF ne nws] case_list_hd [OF ne])
      using nb e apply simp
      done
  qed
next
  case (6 kvs)
  show ?case
  proof (cases "kvs = []")
    case True
    then show ?thesis
      by (subst parse_value.simps) (simp add: skip_ws_def is_ws_def)
  next
    case False
    let ?r = "stringify_members kvs @ CHR ''}'' # rest"
    from False obtain kv kvs' where kvs: "kvs = kv # kvs'" by (cases kvs) auto
    have ne: "?r \<noteq> []" by simp
    have h: "hd ?r = DQ" by (simp add: kvs quote_def)
    have nws: "\<not> is_ws (hd ?r)" and nb: "hd ?r \<noteq> CHR ''}''"
      by (simp_all add: h is_ws_def)
    have e: "parse_members ?r = Inr (kvs, rest)"
      using 6 False by simp
    have a: "assign_all [] kvs = kvs"
      using 6(2) assign_all_distinct [of "[]" kvs] by simp
    show ?thesis
      apply (subst parse_value.simps)
      apply (simp add: skip_ws_def is_ws_def)
      apply (fold skip_ws_def)
      apply (simp only: skip_ws_not_ws [OF ne nws] case_list_hd [OF ne])
      using nb e a apply simp
      done
  qed
next
  case 7
  then show ?case by simp
next
  case (8 x xs)
  have v: "\<And>t. number_end t \<Longrightarrow> parse_value (JSON_stringify x @ t) = Inr (x, t)"
    using 8 by simp
  show ?case
  proof (cases "xs = []")
    case True
    then show ?thesis
      by (subst parse_elements.simps) (simp add: v skip_ws_def is_ws_def)
  next
    case False
    have e: "parse_elements (stringify_elements xs @ CHR '']'' # rest') = Inr (xs, rest')"
      using 8 False by simp
    show ?thesis
      using False
      by (subst parse_elements.simps) (simp add: v e skip_ws_def is_ws_def)
  qed
next
  case 9
  then show ?case by simp
next
  case (10 kv kvs)
  have v: "\<And>t. number_end t \<Longrightarrow> parse_value (JSON_stringify (snd kv) @ t) = Inr (snd kv, t)"
    using 10 by simp
  show ?case
  proof (cases "kvs = []")
    case True
    then show ?thesis
      by (subst parse_members.simps)
        (simp add: v skip_ws_def is_ws_def quote_def parse_string_quote)
  next
    case False
    have e: "parse_members (stringify_members kvs @ CHR ''}'' # rest'') = Inr (kvs, rest'')"
      using 10 False by simp
    show ?thesis
      using False
      by (subst parse_members.simps)
        (simp add: v e skip_ws_def is_ws_def quote_def parse_string_quote)
  qed
qed

lemma JSON_roundtrip: "distinct_keys v \<Longrightarrow> JSON_parse (JSON_stringify v) = Inr v"
  using parse_roundtrip(1) [of v "[]"] by (simp add: JSON_parse_def skip_ws_def)

subsection \<open>A placeholder in a string of the content is met by the scan\<close>




















lemma escaped_opener [simp]: "escaped opener = opener"
  by (simp add: opener_def escape_char_def)

lemma escaped_brace_char [simp]: "escape_char (CHR ''}'') = ''}''"
  by (simp add: escape_char_def)










subsection \<open>Shared facts about the request executor\<close>

lemma assign_all_simps [simp]:
  "assign_all t [] = t"
  "assign_all t (kv # kvs) = assign_all (AList.update (fst kv) (snd kv) t) kvs"
  by (simp_all add: assign_all_def)

lemma handleRequest_sent:
  assumes "prepare_step h ec (storedData st) = (evs, Inr prepared)"
  shows "\<exists>evs'. trace (fst (handleRequest h g endpoint ec st)) =
           trace st @ evs @
             [Http (http_call_of g endpoint ec prepared),
              MetricAdd ''response_time'' (JNum (elapsed (http h (http_call_of g endpoint ec prepared))))
                [(''endpoint'', JStr endpoint)],
              MetricAdd ''slow_requests''
                (JBool (isSlowRequest g ec (elapsed (http h (http_call_of g endpoint ec prepared))))) []]
             @ evs'"
  using assms
  by (auto simp: handleRequest_def Let_def split: prod.splits sum.splits option.splits)

lemma replace_scan_id: "keys_of (scan s) = [] \<Longrightarrow> replace_pieces stored (scan s) = Inr s"
  by (induction s rule: scan.induct) (auto split: option.splits)

lemma replace_stored_id: "placeholder_keys s = [] \<Longrightarrow> replace_stored stored s = Inr s"
  by (simp add: placeholder_keys_def replace_stored_def replace_scan_id)



lemma prepareRequestBody_missing:
  assumes "processedContent (content b) stored = Inl (StoredValueNotFound k)"
  shows "prepareRequestBody h (Some b) stored =
           ([ConsoleError (''Error preparing request body: '' @ message (StoredValueNotFound k))],
            Inl (StoredValueNotFound k))"
  using assms by (simp add: prepareRequestBody_def prepare_body_def catchable_def)

lemma handleRequest_prepare_failed:
  assumes "prepare_step h ec (storedData st) = (evs, Inl e)" "catchable e"
  shows "handleRequest h g endpoint ec st =
           (st\<lparr>trace := trace st @ evs
                 @ [ConsoleError (''Failed to prepare request body for '' @ endpoint @ '': '' @ message e),
                    MetricAdd ''failed_requests'' (JNum 1) []]\<rparr>, None)"
  using assms by (simp add: handleRequest_def)



lemma validate_fields_ignores_pattern:
  "validate_fields h responseBody
     (map (\<lambda>fd. (fst fd, (snd fd)\<lparr>pattern_prop := p fd, validator_prop := q fd\<rparr>)) expected) results
   = validate_fields h responseBody expected results"
  by (induction expected arbitrary: results) (auto split: sum.splits option.splits)

lemma validateResponseContent_not_json:
  assumes "b \<noteq> []" and "JSON_parse b = Inl (SyntaxError m)"
  shows "validateResponseContent h \<lparr>response_body = Some b, status = s\<rparr> expected =
           ([], Inl (TypeError ''Cannot read properties of undefined (reading path)''))"
  using assms by (simp add: validateResponseContent_def parseResponse_def catchable_def)

lemma parse_profile:
  "JSON_parse (''{'' @ [DQ] @ ''name'' @ [DQ] @ '':'' @ [DQ] @ ''a'' @ [DQ] @ '','' @ [DQ] @ ''age'' @ [DQ] @ '':500}'') = Inr (JObj [(''name'', JStr ''a''), (''age'', JNum 500)])"
  by code_simp

lemma label_distinct: "f @ '' is valid'' \<noteq> g @ '' validation''"
proof
  assume "f @ '' is valid'' = g @ '' validation''"
  then have "last (f @ '' is valid'') = last (g @ '' validation'')"
    by (rule arg_cong)
  then show False by simp
qed

lemma validate_fields_untouched:
  "snd (validate_fields h responseBody expected acc) = Inr results \<Longrightarrow>
   list_all (\<lambda>fd. key \<noteq> fst fd @ '' is valid'' \<and> key \<noteq> fst fd @ '' validation'') expected \<Longrightarrow>
   map_of results key = map_of acc key"
proof (induction expected arbitrary: acc)
  case Nil
  then show ?case by simp
next
  case (Cons fd rest)
  then show ?case
    by (auto simp: after_def update_conv' split: sum.splits option.splits)
qed

lemma validate_fields_recorded:
  "snd (validate_fields h responseBody expected acc) = Inr results \<Longrightarrow>
   distinct (map fst expected) \<Longrightarrow> (field, d) \<in> set expected \<Longrightarrow>
   \<exists>v. get_prop responseBody field = Inr v
      \<and> (case validators h (field_type d) of
           None \<Rightarrow> map_of results (field @ '' validation'') = Some False
         | Some check_value \<Rightarrow>
             (\<exists>isValid. check_value v (values_prop d) = Inr isValid
                \<and> map_of results (field @ '' is valid'') = Some isValid))"
proof (induction expected arbitrary: acc)
  case Nil
  then show ?case by simp
next
  case (Cons fd rest)
  from Cons.prems(1) obtain v where v: "get_prop responseBody (fst fd) = Inr v"
    by (auto split: sum.splits)
  show ?case
  proof (cases "fd = (field, d)")
    case True
    have fresh: "list_all (\<lambda>fd'. field @ s \<noteq> fst fd' @ '' is valid''
                    \<and> field @ s \<noteq> fst fd' @ '' validation'') rest"
      if "s = '' is valid'' \<or> s = '' validation''" for s
      using Cons.prems(2) True that label_distinct [of field] label_distinct [of _ field]
      by (auto simp: list_all_iff)
    show ?thesis
    proof (cases "validators h (field_type d)")
      case None
      with Cons.prems(1) v True
      have "snd (validate_fields h responseBody rest
                   (AList.update (field @ '' validation'') False acc)) = Inr results"
        by (simp add: after_def)
      from validate_fields_untouched [OF this fresh [of "'' validation''"]]
      show ?thesis using v True None by (simp add: update_conv')
    next
      case (Some check_value)
      with Cons.prems(1) v True obtain isValid where
        c: "check_value v (values_prop d) = Inr isValid" and
        r: "snd (validate_fields h responseBody rest
                   (AList.update (field @ '' is valid'') isValid acc)) = Inr results"
        by (auto simp: after_def split: sum.splits)
      from validate_fields_untouched [OF r fresh [of "'' is valid''"]]
      show ?thesis using v True Some c by (simp add: update_conv')
    qed
  next
    case False
    with Cons.prems have m: "(field, d) \<in> set rest" and dr: "distinct (map fst rest)"
      by auto
    from Cons.prems(1) v obtain acc' where
      "snd (validate_fields h responseBody rest acc') = Inr results"
      by (auto simp: after_def split: sum.splits option.splits)
    from Cons.IH [OF this dr m] show ?thesis .
  qed
qed

lemma validate_fields_raised:
  "snd (validate_fields h responseBody expected acc) = Inl e \<Longrightarrow>
   list_ex (\<lambda>fd. get_prop responseBody (fst fd) = Inl e
              \<or> (\<exists>v check_value. get_prop responseBody (fst fd) = Inr v
                    \<and> validators h (field_type (snd fd)) = Some check_value
                    \<and> check_value v (values_prop (snd fd)) = Inl e)) expected"
proof (induction expected arbitrary: acc)
  case Nil
  then show ?case by simp
next
  case (Cons fd rest)
  then show ?case
    by (auto simp: after_def split: sum.splits option.splits)
qed

lemma validateResponseContent_parsed:
  assumes "response_body resp = Some text" and "JSON_parse text = Inr responseBody"
    and "truthy responseBody"
  shows "validateResponseContent h resp expected = validate_fields h responseBody expected []"
proof -
  have "JSON_parse [] \<noteq> Inr responseBody" by code_simp
  with assms(2) have "text \<noteq> []" by auto
  with assms show ?thesis
    by (simp add: validateResponseContent_def parseResponse_def after_def)
qed

lemma parse_status:
  "JSON_parse status_text = Inr (JObj [(''code'', JStr ''X1''), (''status'', JStr ''archived'')])"
  by code_simp


subsection \<open>The claims of the specification\<close>

text \<open>
  C1. For every response payload that cannot be parsed (empty body or non-JSON body),
  \<^verbatim>\<open>validateResponseContent\<close> returns exactly the one failing result keyed
  \<^verbatim>\<open>response parsing\<close> and raises no error. The code does so for the empty body only.
  For a non-JSON body, here \<^verbatim>\<open><html>\<close>, it raises a TypeError: \<^verbatim>\<open>validateResponseContent\<close>
  calls \<^verbatim>\<open>parseResponse(response)\<close> without the endpoint, and the \<^verbatim>\<open>catch\<close> block of
  \<^verbatim>\<open>parseResponse\<close> reads \<^verbatim>\<open>endpointConfig.path\<close>. The store step of \<^verbatim>\<open>handleRequest\<close>
  passes both arguments.
\<close>

theorem unparseable_response_raises:
  "validateResponseContent h html_response expected =
     ([], Inl (TypeError ''Cannot read properties of undefined (reading path)''))
   \<and> validateResponseContent h empty_response expected = ([], Inr [(''response parsing'', False)])"
proof -
  have "JSON_parse ''<html>'' = Inl (SyntaxError ''Unexpected token in JSON'')"
    by code_simp
  from validateResponseContent_not_json [OF _ this, of h 200 expected]
  show ?thesis
    by (simp add: html_response_def empty_response_def validateResponseContent_def parseResponse_def)
qed




text \<open>
  C3. Placeholder substitution is applied to header values: a header containing a
  placeholder whose key is stored is sent with the stored value. The code substitutes in
  the body only. With \<^verbatim>\<open>accessToken\<close> stored, the endpoint of the commented block of
  \<^verbatim>\<open>endpoints.js\<close> is called with the header \<^verbatim>\<open>Authorization: ${stored.accessToken}\<close>
  as written, on any host.
\<close>

theorem header_placeholder_sent_verbatim:
  "\<exists>evs. trace (fst (handleRequest h globalConfig ''getAccountConsents'' getAccountConsents
             token_state)) =
     Http (HttpGet ''https://uat.openfinance.adcb.com/accounts/d0ad73f0-1454-4916-8904-7ca824b5a4be/consents''
             \<lparr>params_headers = [(''Accept'', ''application/json''),
                                (''Authorization'', ''${stored.accessToken}''),
                                (''o3-consent-id'', ''MQ=='')],
              params_tags = [(''endpoint'', ''getAccountConsents''), (''0'', ''accounts''),
                             (''1'', ''consents'')]\<rparr>) # evs"
proof -
  have p: "prepare_step h getAccountConsents
             (storedData token_state)
           = ([], Inr None)"
    by (simp add: prepare_step_def getAccountConsents_def token_state_def)
  have c: "http_call_of globalConfig ''getAccountConsents'' getAccountConsents None =
     HttpGet ''https://uat.openfinance.adcb.com/accounts/d0ad73f0-1454-4916-8904-7ca824b5a4be/consents''
             \<lparr>params_headers = [(''Accept'', ''application/json''),
                                (''Authorization'', ''${stored.accessToken}''),
                                (''o3-consent-id'', ''MQ=='')],
              params_tags = [(''endpoint'', ''getAccountConsents''), (''0'', ''accounts''),
                             (''1'', ''consents'')]\<rparr>"
    by (simp add: http_call_of_def getAccountConsents_def globalConfig_def request_url_def
        request_params_def request_headers_def or_string_def)
  from handleRequest_sent [OF p, of globalConfig "''getAccountConsents''"] show ?thesis
    by (auto simp: c token_state_def)
qed

text \<open>
  C4. For every declared field, \<^verbatim>\<open>validateResponseContent\<close> calls the selected validator
  with the descriptor's \<^verbatim>\<open>values\<close> property as the options argument; the \<^verbatim>\<open>pattern\<close>
  and \<^verbatim>\<open>validator\<close> properties never reach the predicate. For a response whose body
  parses to a truthy value and a schema (an object, so its field names are distinct):
  replacing the \<^verbatim>\<open>pattern\<close> and \<^verbatim>\<open>validator\<close> properties of every descriptor by
  anything changes neither the results nor the effects; when the function returns its
  results, the entry of each declared field is what the validator found under the
  field's type returns on the field's value and the \<^verbatim>\<open>values\<close> property, and the
  failing entry \<^verbatim>\<open>validation\<close> of the field when no validator is found; when the
  function raises, the exception is that of the read of a declared field or of the call
  of its validator on the field's value and the \<^verbatim>\<open>values\<close> property.
\<close>

theorem validators_receive_values_only:
  assumes "response_body resp = Some text" and "JSON_parse text = Inr responseBody"
    and "truthy responseBody"
    and "distinct (map fst expected)" and "(field, d) \<in> set expected"
  shows "validateResponseContent h resp
           (map (\<lambda>fd. (fst fd, (snd fd)\<lparr>pattern_prop := p fd, validator_prop := q fd\<rparr>)) expected)
         = validateResponseContent h resp expected
       \<and> (\<forall>results. snd (validateResponseContent h resp expected) = Inr results \<longrightarrow>
            (\<exists>v. get_prop responseBody field = Inr v
               \<and> (case validators h (field_type d) of
                    None \<Rightarrow> map_of results (field @ '' validation'') = Some False
                  | Some check_value \<Rightarrow>
                      (\<exists>isValid. check_value v (values_prop d) = Inr isValid
                         \<and> map_of results (field @ '' is valid'') = Some isValid))))
       \<and> (\<forall>e. snd (validateResponseContent h resp expected) = Inl e \<longrightarrow>
            list_ex (\<lambda>fd. get_prop responseBody (fst fd) = Inl e
                       \<or> (\<exists>v check_value. get_prop responseBody (fst fd) = Inr v
                             \<and> validators h (field_type (snd fd)) = Some check_value
                             \<and> check_value v (values_prop (snd fd)) = Inl e)) expected)"
proof -
  have 1: "validateResponseContent h resp
           (map (\<lambda>fd. (fst fd, (snd fd)\<lparr>pattern_prop := p fd, validator_prop := q fd\<rparr>)) expected)
         = validateResponseContent h resp expected"
    by (auto simp: validateResponseContent_def validate_fields_ignores_pattern
        split: prod.splits sum.splits)
  note eq = validateResponseContent_parsed [OF assms(1,2,3), of h expected]
  show ?thesis
    using 1 validate_fields_recorded [OF _ assms(4,5), of h responseBody "[]"]
      validate_fields_raised [of h responseBody expected "[]"]
    by (simp add: eq)
qed

theorem validators_receive_values_only_witness:
  "response_body status_response = Some status_text
   \<and> JSON_parse status_text = Inr (JObj [(''code'', JStr ''X1''), (''status'', JStr ''archived'')])
   \<and> truthy (JObj [(''code'', JStr ''X1''), (''status'', JStr ''archived'')])
   \<and> distinct (map fst status_schema)
   \<and> (''status'', status_field) \<in> set status_schema
   \<and> snd (validateResponseContent sample_host status_response status_schema) =
       Inr [(''code is valid'', True), (''status is valid'', False)]
   \<and> validators sample_host (field_type status_field) = Some v_enum
   \<and> v_enum (Val (JStr ''archived'')) (values_prop status_field) = Inr False"
proof -
  have r: "response_body status_response = Some status_text"
    by (simp add: status_response_def)
  have t: "truthy (JObj [(''code'', JStr ''X1''), (''status'', JStr ''archived'')])"
    by simp
  have d: "distinct (map fst status_schema)"
    by (simp add: status_schema_def)
  have m: "(''status'', status_field) \<in> set status_schema"
    by (simp add: status_schema_def)
  have res: "snd (validateResponseContent sample_host status_response status_schema) =
       Inr [(''code is valid'', True), (''status is valid'', False)]"
    by code_simp
  have v: "validators sample_host (field_type status_field) = Some v_enum"
    by (simp add: validators_def status_field_def no_options_def)
  from validators_receive_values_only [OF r parse_status t d m, of sample_host "\<lambda>fd. None" "\<lambda>fd. None"]
  have "\<exists>isValid. v_enum (Val (JStr ''archived'')) (values_prop status_field) = Inr isValid
           \<and> map_of [(''code is valid'', True), (''status is valid'', False)] ''status is valid''
               = Some isValid"
    by (simp add: res v)
  then have "v_enum (Val (JStr ''archived'')) (values_prop status_field) = Inr False"
    by auto
  with r parse_status t d m res v show ?thesis by blast
qed

text \<open>
  C5. When a \<^verbatim>\<open>text\<close> descriptor declares \<^verbatim>\<open>minLength\<close>/\<^verbatim>\<open>maxLength\<close> or a \<^verbatim>\<open>number\<close>
  descriptor declares \<^verbatim>\<open>min\<close>/\<^verbatim>\<open>max\<close>, response validation enforces the bounds. The
  code reads none of the four: with the bounds of the example of \<^verbatim>\<open>endpoints.js\<close>, the
  one-character name and the age 500 are both reported valid.
\<close>

theorem bounds_not_enforced:
  "validateResponseContent h profile_response profile_schema =
     ([], Inr [(''name is valid'', True), (''age is valid'', True)])"
  by (simp add: profile_response_def profile_schema_def validateResponseContent_def parseResponse_def
      parse_profile [simplified] after_def no_options_def validators_def v_text_def v_number_def)

text \<open>
  C6. The slow classification is strict greater-than against the endpoint's configured
  response-time threshold, with the global threshold when the endpoint declares none. As
  stated this fails for an endpoint that declares the threshold 0: \<^verbatim>\<open>0 || x\<close> is
  \<^verbatim>\<open>x\<close>, so the global threshold is in force and a duration of 1 is not slow.
\<close>

theorem slow_threshold_zero_counterexample:
  "spec_threshold globalConfig zero_threshold_endpoint = 0
   \<and> \<not> isSlowRequest globalConfig zero_threshold_endpoint
         (spec_threshold globalConfig zero_threshold_endpoint + 1)"
  by (simp add: spec_threshold_def isSlowRequest_def slow_limit_def or_int_def config_responseTime_def
      zero_threshold_endpoint_def plain_endpoint_def globalConfig_def)

text \<open>
  C6, amended. For every executed request the sample added to the slow-request metric is
  the comparison of the duration with the threshold in force, by strict greater-than: the
  endpoint's response-time threshold when it declares one other than 0, the global
  slow-request threshold when it declares none or declares 0. A duration equal to the
  threshold in force is not slow, one millisecond more is.
\<close>

theorem slow_classification_strict:
  assumes "prepare_step h ec (storedData st) = (evs, Inr prepared)"
  shows "let d = elapsed (http h (http_call_of g endpoint ec prepared));
             limit = (case config_responseTime ec of
                        None \<Rightarrow> slowRequestThreshold g
                      | Some t \<Rightarrow> if t = 0 then slowRequestThreshold g else t)
         in MetricAdd ''slow_requests'' (JBool (d > limit)) []
              \<in> set (trace (fst (handleRequest h g endpoint ec st)))
            \<and> isSlowRequest g ec d = (d > limit)
            \<and> \<not> isSlowRequest g ec limit
            \<and> isSlowRequest g ec (limit + 1)"
proof -
  have l: "slow_limit g ec =
     (case config_responseTime ec of
        None \<Rightarrow> slowRequestThreshold g
      | Some t \<Rightarrow> if t = 0 then slowRequestThreshold g else t)"
    by (simp add: slow_limit_def or_int_def split: option.splits)
  from handleRequest_sent [OF assms, of g endpoint]
  have "MetricAdd ''slow_requests''
          (JBool (isSlowRequest g ec (elapsed (http h (http_call_of g endpoint ec prepared))))) []
        \<in> set (trace (fst (handleRequest h g endpoint ec st)))"
    by auto
  then show ?thesis
    by (simp add: Let_def isSlowRequest_def l [symmetric])
qed

theorem slow_classification_strict_witness:
  "prepare_step sample_host zero_threshold_endpoint (storedData initial_state) = ([], Inr None)
   \<and> MetricAdd ''slow_requests'' (JBool False) []
        \<in> set (trace (fst (handleRequest sample_host globalConfig ''health'' zero_threshold_endpoint
                               initial_state)))
   \<and> \<not> isSlowRequest globalConfig zero_threshold_endpoint 1000
   \<and> isSlowRequest globalConfig zero_threshold_endpoint 1001"
proof -
  have p: "prepare_step sample_host zero_threshold_endpoint (storedData initial_state) = ([], Inr None)"
    by (simp add: prepare_step_def zero_threshold_endpoint_def plain_endpoint_def)
  from slow_classification_strict [OF p, of globalConfig "''health''"]
  show ?thesis using p
    by (simp add: Let_def sample_host_def config_responseTime_def zero_threshold_endpoint_def
        plain_endpoint_def globalConfig_def)
qed



text \<open>
  C8. For every JSON-serializable content containing no placeholder, template
  substitution returns a value equal to the input. Read on the content structure (no
  string of it contains a match of the pattern) this fails: the pattern is matched on
  the serialized text, where a match can begin inside a string and end at a brace
  behind it. No string of \<^verbatim>\<open>{note: "see ${stored."}\<close> contains a placeholder; its
  serialization ends with \<^verbatim>\<open>${stored."}\<close>, a match with the key \<^verbatim>\<open>"\<close>, and the
  substitution fails for want of that key.
\<close>

theorem dangling_opening_counterexample:
  "distinct_keys dangling_content
   \<and> list_all no_placeholder (strings_of dangling_content)
   \<and> processedContent dangling_content Map.empty = Inl (StoredValueNotFound [DQ])"
  by code_simp

text \<open>
  C8, amended. For every JSON-serializable content whose serialization contains no match
  of the placeholder pattern, template substitution returns the input itself, whatever is
  stored: strings, numbers, booleans and \<^verbatim>\<open>null\<close> come back unchanged, at every depth.
\<close>

theorem substitution_roundtrip:
  assumes "distinct_keys c" and "no_placeholder (JSON_stringify c)"
  shows "processedContent c stored = Inr c"
  using assms
  by (simp add: processedContent_def no_placeholder_def replace_stored_id JSON_roundtrip)

theorem substitution_roundtrip_witness:
  "distinct_keys plain_content
   \<and> no_placeholder (JSON_stringify plain_content)
   \<and> processedContent plain_content [''token'' \<mapsto> Val (JStr ''abc123'')] = Inr plain_content"
proof -
  have d: "distinct_keys plain_content" by code_simp
  have n: "no_placeholder (JSON_stringify plain_content)" by code_simp
  from substitution_roundtrip [OF d n, of "[''token'' \<mapsto> Val (JStr ''abc123'')]"]
  show ?thesis using d n by simp
qed

text \<open>
  C9. When body preparation fails (with a JavaScript exception), the invocation ends
  after recording the failed-request metric, without an exception of its own, and leaves
  the stored data and the slow-request records as they were. The trace grows by the
  events of the preparation, the console line and the metric sample.
\<close>

theorem body_preparation_failure_frame:
  assumes "prepare_step h ec (storedData st) = (evs, Inl e)" and "catchable e"
  shows "snd (handleRequest h g endpoint ec st) = None
         \<and> storedData (fst (handleRequest h g endpoint ec st)) = storedData st
         \<and> slowRequests (fst (handleRequest h g endpoint ec st)) = slowRequests st
         \<and> trace (fst (handleRequest h g endpoint ec st)) =
             trace st @ evs
               @ [ConsoleError (''Failed to prepare request body for '' @ endpoint @ '': '' @ message e),
                  MetricAdd ''failed_requests'' (JNum 1) []]"
  using handleRequest_prepare_failed [OF assms, of g endpoint] by simp

theorem body_preparation_failure_frame_witness:
  "prepare_step sample_host submit_endpoint (storedData initial_state) =
     ([ConsoleError (''Error preparing request body: '' @ message (StoredValueNotFound ''token''))],
      Inl (StoredValueNotFound ''token''))
   \<and> catchable (StoredValueNotFound ''token'')
   \<and> snd (handleRequest sample_host globalConfig ''submit'' submit_endpoint initial_state) = None
   \<and> storedData (fst (handleRequest sample_host globalConfig ''submit'' submit_endpoint initial_state))
       = Map.empty
   \<and> slowRequests (fst (handleRequest sample_host globalConfig ''submit'' submit_endpoint initial_state))
       = []"
proof -
  have c: "processedContent (content token_body) Map.empty = Inl (StoredValueNotFound ''token'')"
    by code_simp
  have p: "prepare_step sample_host submit_endpoint (storedData initial_state) =
     ([ConsoleError (''Error preparing request body: '' @ message (StoredValueNotFound ''token''))],
      Inl (StoredValueNotFound ''token''))"
    using prepareRequestBody_missing [OF c, of sample_host]
    by (simp add: prepare_step_def submit_endpoint_def plain_endpoint_def initial_state_def)
  have e: "catchable (StoredValueNotFound ''token'')"
    by (simp add: catchable_def)
  from body_preparation_failure_frame [OF p e, of globalConfig "''submit''"]
  show ?thesis using p e by (simp add: initial_state_def)
qed

text \<open>
  C10. The \<^verbatim>\<open>enum\<close> validator is not total over missing options: with no allowed-values
  option supplied (\<^verbatim>\<open>undefined\<close>), \<^verbatim>\<open>validate('enum', value, undefined)\<close> raises a
  TypeError for every value instead of returning a boolean.
\<close>

theorem enum_without_options_raises:
  "validators h ''enum'' = Some v_enum
   \<and> (\<exists>msg. v_enum value None = Inl (TypeError msg))
   \<and> (\<exists>msg. validate h ''enum'' value None = Inl (TypeError msg))"
  by (simp add: validate_def validators_def v_enum_def)

end
